theory Spec2Isabelle
  imports Complex_Main "HOL-Library.AList"
begin

section \<open>Data model\<close>

text \<open>
  The plugin keeps one pointer to a \<open>configuration\<close> struct and replaces the struct it
  points to on every reload. Pointer identity and the sharing of the \<open>demoChannelIDs\<close>
  map decide several properties, so structs and Go maps live in an explicit store and are
  named by addresses. An address is the index of the object in the store; allocation
  appends, as a garbage-collected heap never reuses a live address.
\<close>

type_synonym addr = nat

text \<open>
  A Go \<open>map[string]string\<close> object: its entries, one per key. \<open>range\<close> visits the
  entries in the order of the list (Go leaves the order unspecified).
\<close>

type_synonym gomap = "(string \<times> string) list"

text \<open>
  \<open>type configuration struct\<close> (http_hooks.go, line 2291). \<open>SecretNumber\<close> and
  \<open>IntegrationRequestDelay\<close> are Go \<open>int\<close>s that are only copied and compared.
  \<open>demoChannelIDs\<close> is a reference: \<open>None\<close> is the nil map.
\<close>

record configuration =
  Username :: string
  ChannelName :: string
  LastName :: string
  TextStyle :: string
  RandomSecret :: string
  SecretMessage :: string
  EnableMentionUser :: bool
  MentionUser :: string
  SecretNumber :: int
  IntegrationRequestDelay :: int
  disabled :: bool
  demoUserID :: string
  demoChannelIDs :: "addr option"

text \<open>The zero value \<open>configuration{}\<close>.\<close>

definition zero_configuration :: configuration where
  "zero_configuration =
     \<lparr>Username = '''', ChannelName = '''', LastName = '''', TextStyle = '''',
      RandomSecret = '''', SecretMessage = '''', EnableMentionUser = False,
      MentionUser = '''', SecretNumber = 0, IntegrationRequestDelay = 0,
      disabled = False, demoUserID = '''', demoChannelIDs = None\<rparr>"

text \<open>Values of the host's model package that the modelled code reads or builds.\<close>

record app_error =
  StatusCode :: int
  err_Message :: string

datatype go_error = AppErr app_error | Wrap go_error string | ErrorString string

record team =
  team_Id :: string
  team_Name :: string

record channel =
  channel_Id :: string
  channel_TeamId :: string
  channel_Type :: string
  channel_DisplayName :: string
  channel_Name :: string
  channel_Header :: string
  channel_Purpose :: string

record user =
  user_Id :: string
  user_Username :: string
  user_Password :: string
  user_Email :: string
  user_Nickname :: string
  user_FirstName :: string
  user_LastName :: string
  user_Position :: string

record bot =
  bot_Username :: string
  bot_DisplayName :: string
  bot_Description :: string

text \<open>
  A value of type \<open>interface{}\<close> as \<open>encoding/json\<close> decodes it, or as the plugin
  stores it in a property map. A decoded number is a \<open>float64\<close>; it is carried as the
  real number it denotes and never computed with.
\<close>

datatype json =
  JNull
  | JBool bool
  | JNumber real
  | JInt int
  | JString string
  | JArray "json list"
  | JObject "(string \<times> json) list"

record slack_attachment_field =
  field_Title :: string
  field_Value :: json

record slack_attachment =
  Fallback :: string
  Color :: string
  Fields :: "slack_attachment_field list"

datatype prop_value = Plain json | Attachments "slack_attachment list"

record post =
  post_Id :: string
  post_UserId :: string
  post_ChannelId :: string
  post_RootId :: string
  post_Message :: string
  post_Type :: string
  post_Props :: "(string \<times> prop_value) list"
  post_FileIds :: "string list"

datatype log_level = LogInfo | LogWarn | LogError

text \<open>
  How a Go function call ends: it returns a value, or it panics. The state that goes
  with an outcome keeps the effects made before the panic.
\<close>

datatype 'a outcome = Returned 'a | Panicked string

text \<open>
  The state of the world as the plugin sees it: the host's own state \<open>host\<close> (of an
  arbitrary type, moved only by the host's API), the store of configuration structs and of
  map objects, the fields of \<open>Plugin\<close> (\<open>p.configuration\<close>, \<open>p.botID\<close>, whether
  \<open>p.client\<close> is set), and a record of what the plugin asked of the host: every post
  handed to \<open>CreatePost\<close> and every log line.
\<close>

record 'h world =
  host :: 'h
  confs :: "configuration list"
  maps :: "gomap list"
  configuration_ptr :: "addr option"
  botID :: string
  client :: bool
  post_calls :: "post list"
  logs :: "(log_level \<times> string) list"

section \<open>Store operations\<close>

definition new_configuration :: "configuration \<Rightarrow> 'h world \<Rightarrow> addr \<times> 'h world" where
  "new_configuration c w = (length (confs w), w\<lparr>confs := confs w @ [c]\<rparr>)"

text \<open>\<open>make(map[string]string)\<close>.\<close>

definition make_map :: "'h world \<Rightarrow> addr \<times> 'h world" where
  "make_map w = (length (maps w), w\<lparr>maps := maps w @ [[]]\<rparr>)"

text \<open>\<open>m[key] = value\<close> and \<open>delete(m, key)\<close> on the map object at address \<open>m\<close>.\<close>

definition map_assign :: "addr \<Rightarrow> string \<Rightarrow> string \<Rightarrow> 'h world \<Rightarrow> 'h world" where
  "map_assign m key val w = w\<lparr>maps := (maps w)[m := AList.update key val (maps w ! m)]\<rparr>"

definition map_delete :: "addr \<Rightarrow> string \<Rightarrow> 'h world \<Rightarrow> 'h world" where
  "map_delete m key w = w\<lparr>maps := (maps w)[m := AList.delete key (maps w ! m)]\<rparr>"

text \<open>The entries of a map reference; the nil map reads as the empty map.\<close>

definition map_entries :: "addr option \<Rightarrow> 'h world \<Rightarrow> gomap" where
  "map_entries r w = (case r of None \<Rightarrow> [] | Some m \<Rightarrow> maps w ! m)"

text \<open>
  What Go's memory safety gives for free: the published pointer and every map reference
  of a stored struct name an allocated object, and a map object binds a key once.
\<close>

definition heap_ok :: "'h world \<Rightarrow> bool" where
  "heap_ok w \<longleftrightarrow>
     (case configuration_ptr w of None \<Rightarrow> True | Some a \<Rightarrow> a < length (confs w)) \<and>
     list_all (\<lambda>c. case demoChannelIDs c of None \<Rightarrow> True | Some m \<Rightarrow> m < length (maps w))
       (confs w) \<and>
     list_all (\<lambda>m. distinct (map fst m)) (maps w)"

section \<open>The configuration manager\<close>

text \<open>\<open>Clone\<close> (line 2335): the loop that copies the entries into the fresh map.\<close>

fun Clone_loop :: "gomap \<Rightarrow> addr \<Rightarrow> 'h world \<Rightarrow> 'h world" where
  "Clone_loop [] m w = w"
| "Clone_loop ((key, val) # rest) m w = Clone_loop rest m (map_assign m key val w)"

definition Clone :: "addr \<Rightarrow> 'h world \<Rightarrow> addr \<times> 'h world" where
  "Clone c w =
     (let (m, w1) = make_map w;
          w2 = Clone_loop (map_entries (demoChannelIDs (confs w ! c)) w) m w1
      in new_configuration
           \<lparr>Username = Username (confs w2 ! c),
            ChannelName = ChannelName (confs w2 ! c),
            LastName = LastName (confs w2 ! c),
            TextStyle = TextStyle (confs w2 ! c),
            RandomSecret = RandomSecret (confs w2 ! c),
            SecretMessage = SecretMessage (confs w2 ! c),
            EnableMentionUser = EnableMentionUser (confs w2 ! c),
            MentionUser = MentionUser (confs w2 ! c),
            SecretNumber = SecretNumber (confs w2 ! c),
            IntegrationRequestDelay = IntegrationRequestDelay (confs w2 ! c),
            disabled = disabled (confs w2 ! c),
            demoUserID = demoUserID (confs w2 ! c),
            demoChannelIDs = Some m\<rparr> w2)"

text \<open>
  \<open>getConfiguration\<close> (line 2362). The lock is not modelled: one call runs at a time.
  With nothing published it allocates a fresh zero struct and returns its address.
\<close>

definition getConfiguration :: "'h world \<Rightarrow> addr \<times> 'h world" where
  "getConfiguration w =
     (case configuration_ptr w of
        None \<Rightarrow> new_configuration zero_configuration w
      | Some a \<Rightarrow> (a, w))"

text \<open>\<open>setConfiguration\<close> (line 2382); the argument is a pointer, \<open>None\<close> is nil.\<close>

definition setConfiguration :: "addr option \<Rightarrow> 'h world \<Rightarrow> unit outcome \<times> 'h world" where
  "setConfiguration c w =
     (if c \<noteq> None \<and> configuration_ptr w = c
      then (Panicked ''setConfiguration called with the existing configuration'', w)
      else (Returned (), w\<lparr>configuration_ptr := c\<rparr>))"

section \<open>The host\<close>

text \<open>
  The host's plugin API, as far as the modelled code calls it. Each operation takes the
  host's state and returns its answer with the host's next state, so a host may answer the
  same call differently each time. An operation of the Go API that returns a pointer and
  an \<open>*AppError\<close> answers with a sum: \<open>Inl\<close> the error, \<open>Inr\<close> the value.
  \<open>GetChannelByNameForTeamName\<close> answers with the channel pointer alone (its caller
  drops the error), \<open>CreateTeamMember\<close> with the error alone (its caller drops the
  member). \<open>LoadPluginConfiguration\<close> answers with the struct the host's settings
  decode to; \<open>load_public\<close> below keeps what a decoder can reach. \<open>EnsureBot\<close> is the
  helper of the \<open>pluginapi\<close> client, \<open>json_Marshal\<close> is \<open>encoding/json\<close>.
\<close>

record 'h api =
  api_GetTeams :: "'h \<Rightarrow> (app_error + team list) \<times> 'h"
  api_GetChannelByNameForTeamName :: "string \<Rightarrow> string \<Rightarrow> bool \<Rightarrow> 'h \<Rightarrow> channel option \<times> 'h"
  api_CreateChannel :: "channel \<Rightarrow> 'h \<Rightarrow> (app_error + channel) \<times> 'h"
  api_GetUserByUsername :: "string \<Rightarrow> 'h \<Rightarrow> (app_error + user) \<times> 'h"
  api_GetUser :: "string \<Rightarrow> 'h \<Rightarrow> (app_error + user) \<times> 'h"
  api_CreateUser :: "user \<Rightarrow> 'h \<Rightarrow> (app_error + user) \<times> 'h"
  api_UpdateUser :: "user \<Rightarrow> 'h \<Rightarrow> (app_error + user) \<times> 'h"
  api_CreateTeamMember :: "string \<Rightarrow> string \<Rightarrow> 'h \<Rightarrow> app_error option \<times> 'h"
  api_LoadPluginConfiguration :: "configuration \<Rightarrow> 'h \<Rightarrow> (go_error + configuration) \<times> 'h"
  api_EnsureBot :: "bot \<Rightarrow> 'h \<Rightarrow> (go_error + string) \<times> 'h"
  api_UploadFile :: "string \<Rightarrow> string \<Rightarrow> string \<Rightarrow> 'h \<Rightarrow> (app_error + string) \<times> 'h"
  api_CreatePost :: "post \<Rightarrow> 'h \<Rightarrow> (app_error + post) \<times> 'h"
  json_Marshal :: "configuration \<Rightarrow> go_error + string"

text \<open>A call into the host moves the host's state and nothing else.\<close>

definition call :: "('h \<Rightarrow> 'r \<times> 'h) \<Rightarrow> 'h world \<Rightarrow> 'r \<times> 'h world" where
  "call f w = (case f (host w) of (r, h) \<Rightarrow> (r, w\<lparr>host := h\<rparr>))"

text \<open>\<open>p.API.CreatePost\<close>: the post handed over is recorded, whatever the host answers.\<close>

definition CreatePost :: "'h api \<Rightarrow> post \<Rightarrow> 'h world \<Rightarrow> (app_error + post) \<times> 'h world" where
  "CreatePost api p w =
     (case call (api_CreatePost api p) w of
        (r, w1) \<Rightarrow> (r, w1\<lparr>post_calls := post_calls w1 @ [p]\<rparr>))"

text \<open>\<open>p.API.LogInfo\<close>, \<open>LogWarn\<close>, \<open>LogError\<close>: the level and the message are kept.\<close>

definition log :: "log_level \<Rightarrow> string \<Rightarrow> 'h world \<Rightarrow> 'h world" where
  "log lvl msg w = w\<lparr>logs := logs w @ [(lvl, msg)]\<rparr>"

text \<open>The zero value \<open>model.Post{}\<close>.\<close>

definition zero_post :: post where
  "zero_post =
     \<lparr>post_Id = '''', post_UserId = '''', post_ChannelId = '''', post_RootId = '''',
      post_Message = '''', post_Type = '''', post_Props = [], post_FileIds = []\<rparr>"

text \<open>\<open>m[key]\<close> read as an expression: the zero value when the key is not bound.\<close>

definition map_index :: "gomap \<Rightarrow> string \<Rightarrow> string" where
  "map_index m key = (case map_of m key of None \<Rightarrow> '''' | Some v \<Rightarrow> v)"

text \<open>
  Decoding the host's settings into the struct sets exported fields only: the three
  unexported fields of the destination stay.
\<close>

definition load_public :: "configuration \<Rightarrow> configuration \<Rightarrow> configuration" where
  "load_public loaded dest =
     loaded\<lparr>disabled := disabled dest, demoUserID := demoUserID dest,
            demoChannelIDs := demoChannelIDs dest\<rparr>"

text \<open>Writing through a struct pointer.\<close>

definition conf_update :: "addr \<Rightarrow> (configuration \<Rightarrow> configuration) \<Rightarrow> 'h world \<Rightarrow> 'h world" where
  "conf_update c f w = w\<lparr>confs := (confs w)[c := f (confs w ! c)]\<rparr>"

section \<open>Ensuring the demo user and the demo channels\<close>

text \<open>\<open>ensureDemoUser\<close> (line 2595), the loop of lines 2633 to 2638 first.\<close>

fun ensureDemoUser_loop :: "'h api \<Rightarrow> team list \<Rightarrow> string \<Rightarrow> 'h world \<Rightarrow> 'h world" where
  "ensureDemoUser_loop api [] uid w = w"
| "ensureDemoUser_loop api (t # rest) uid w =
     (case call (api_CreateTeamMember api (team_Id t) uid) w of
        (None, w1) \<Rightarrow> ensureDemoUser_loop api rest uid w1
      | (Some err, w1) \<Rightarrow>
          ensureDemoUser_loop api rest uid (log LogError ''Failed add demo user to team'' w1))"

text \<open>Lines 2619 to 2640, with the user found or created.\<close>

definition ensureDemoUser_found ::
  "'h api \<Rightarrow> addr \<Rightarrow> user \<Rightarrow> 'h world \<Rightarrow> (go_error + string) \<times> 'h world" where
  "ensureDemoUser_found api c usr w =
     (case (if user_LastName usr \<noteq> LastName (confs w ! c)
            then (case call (api_UpdateUser api (usr\<lparr>user_LastName := LastName (confs w ! c)\<rparr>)) w of
                    (Inl err, w1) \<Rightarrow> (Inl (AppErr err), w1)
                  | (Inr usr1, w1) \<Rightarrow> (Inr usr1, w1))
            else (Inr usr, w)) of
        (Inl e, w1) \<Rightarrow> (Inl e, w1)
      | (Inr usr1, w1) \<Rightarrow>
          (case call (api_GetTeams api) w1 of
             (Inl err, w2) \<Rightarrow> (Inl (AppErr err), w2)
           | (Inr teams, w2) \<Rightarrow>
               (Inr (user_Id usr1), ensureDemoUser_loop api teams (user_Id usr1) w2)))"

definition ensureDemoUser :: "'h api \<Rightarrow> addr \<Rightarrow> 'h world \<Rightarrow> (go_error + string) \<times> 'h world" where
  "ensureDemoUser api c w =
     (case call (api_GetUserByUsername api (Username (confs w ! c))) w of
        (Inl err, w1) \<Rightarrow>
          (if StatusCode err = 404
           then (case call (api_CreateUser api
                        \<lparr>user_Id = '''',
                         user_Username = Username (confs w1 ! c),
                         user_Password = ''Password_123'',
                         user_Email = Username (confs w1 ! c) @ ''@example.com'',
                         user_Nickname = ''Demo Day'',
                         user_FirstName = ''Demo'',
                         user_LastName = LastName (confs w1 ! c),
                         user_Position = ''Bot''\<rparr>)
                       (log LogInfo ''DemoUser doesn't exist. Trying to create it.'' w1) of
                   (Inl err1, w2) \<Rightarrow> (Inl (AppErr err1), w2)
                 | (Inr usr, w2) \<Rightarrow> ensureDemoUser_found api c usr w2)
           else (Inl (AppErr err), w1))
      | (Inr usr, w1) \<Rightarrow> ensureDemoUser_found api c usr w1)"

text \<open>
  \<open>ensureDemoChannels\<close> (line 2643). Like the Go function it returns the map and the
  error side by side: the nil map with an error, the map built with no error.
\<close>

fun ensureDemoChannels_loop ::
  "'h api \<Rightarrow> addr \<Rightarrow> team list \<Rightarrow> addr \<Rightarrow> 'h world \<Rightarrow> (addr option \<times> go_error option) \<times> 'h world" where
  "ensureDemoChannels_loop api c [] m w = ((Some m, None), w)"
| "ensureDemoChannels_loop api c (t # rest) m w =
     (case call (api_GetChannelByNameForTeamName api (team_Name t) (ChannelName (confs w ! c)) False) w of
        (Some ch, w1) \<Rightarrow>
          ensureDemoChannels_loop api c rest m (map_assign m (team_Id t) (channel_Id ch) w1)
      | (None, w1) \<Rightarrow>
          (case call (api_CreateChannel api
                  \<lparr>channel_Id = '''',
                   channel_TeamId = team_Id t,
                   channel_Type = ''O'',
                   channel_DisplayName = ''Demo Plugin'',
                   channel_Name = ChannelName (confs w1 ! c),
                   channel_Header = ''The channel used by the demo plugin.'',
                   channel_Purpose = ''This channel was created by a plugin for testing.''\<rparr>) w1 of
             (Inl err, w2) \<Rightarrow> ((None, Some (AppErr err)), w2)
           | (Inr ch, w2) \<Rightarrow>
               ensureDemoChannels_loop api c rest m (map_assign m (team_Id t) (channel_Id ch) w2)))"

definition ensureDemoChannels ::
  "'h api \<Rightarrow> addr \<Rightarrow> 'h world \<Rightarrow> (addr option \<times> go_error option) \<times> 'h world" where
  "ensureDemoChannels api c w =
     (case call (api_GetTeams api) w of
        (Inl err, w1) \<Rightarrow> ((None, Some (AppErr err)), w1)
      | (Inr teams, w1) \<Rightarrow>
          (case make_map w1 of (m, w2) \<Rightarrow> ensureDemoChannels_loop api c teams m w2))"

section \<open>The diff of two configurations\<close>

text \<open>
  \<open>diffConfiguration\<close> (line 2393). Lines 2395 to 2423 build the map
  \<open>configurationDiff\<close> from the published struct and the new one; its values are a
  string, a bool or an int.
\<close>

definition configurationDiff :: "configuration \<Rightarrow> configuration \<Rightarrow> (string \<times> json) list" where
  "configurationDiff oldConfiguration newConfiguration =
     (let d0 = [];
          d1 = (if Username newConfiguration \<noteq> Username oldConfiguration
                then AList.update ''username'' (JString (Username newConfiguration)) d0 else d0);
          d2 = (if ChannelName newConfiguration \<noteq> ChannelName oldConfiguration
                then AList.update ''channel_name'' (JString (ChannelName newConfiguration)) d1 else d1);
          d3 = (if LastName newConfiguration \<noteq> LastName oldConfiguration
                then AList.update ''lastname'' (JString (LastName newConfiguration)) d2 else d2);
          d4 = (if TextStyle newConfiguration \<noteq> TextStyle oldConfiguration
                then AList.update ''text_style'' (JString (ChannelName newConfiguration)) d3 else d3);
          d5 = (if RandomSecret newConfiguration \<noteq> RandomSecret oldConfiguration
                then AList.update ''random_secret'' (JString ''<HIDDEN>'') d4 else d4);
          d6 = (if SecretMessage newConfiguration \<noteq> SecretMessage oldConfiguration
                then AList.update ''secret_message'' (JString (SecretMessage newConfiguration)) d5 else d5);
          d7 = (if EnableMentionUser newConfiguration \<noteq> EnableMentionUser oldConfiguration
                then AList.update ''enable_mention_user'' (JBool (EnableMentionUser newConfiguration)) d6 else d6);
          d8 = (if MentionUser newConfiguration \<noteq> MentionUser oldConfiguration
                then AList.update ''mention_user'' (JString (MentionUser newConfiguration)) d7 else d7);
          d9 = (if SecretNumber newConfiguration \<noteq> SecretNumber oldConfiguration
                then AList.update ''secret_number'' (JInt (SecretNumber newConfiguration)) d8 else d8)
      in d9)"

text \<open>The loop over the teams, lines 2435 to 2465.\<close>

fun diffConfiguration_loop ::
  "'h api \<Rightarrow> addr \<Rightarrow> (string \<times> json) list \<Rightarrow> team list \<Rightarrow> 'h world \<Rightarrow> 'h world" where
  "diffConfiguration_loop api c d [] w = w"
| "diffConfiguration_loop api c d (t # rest) w =
     (case map_of (map_entries (demoChannelIDs (confs w ! c)) w) (team_Id t) of
        None \<Rightarrow> diffConfiguration_loop api c d rest (log LogWarn ''No demo channel id for team'' w)
      | Some demoChannelID \<Rightarrow>
          (case json_Marshal api (confs w ! c) of
             Inl jsonErr \<Rightarrow> log LogWarn ''Failed to marshal new configuration'' w
           | Inr newConfigurationData \<Rightarrow>
               (case call (api_UploadFile api newConfigurationData demoChannelID ''configuration.json'') w of
                  (Inl err, w1) \<Rightarrow> log LogWarn ''Failed to attach new configuration'' w1
                | (Inr fileId, w1) \<Rightarrow>
                    (case CreatePost api
                            (zero_post\<lparr>post_UserId := botID w1,
                                       post_ChannelId := demoChannelID,
                                       post_Message := ''OnConfigChange: loading new configuration'',
                                       post_Type := ''custom_demo_plugin'',
                                       post_Props := map (\<lambda>(k, v). (k, Plain v)) d,
                                       post_FileIds := [fileId]\<rparr>) w1 of
                       (Inl err, w2) \<Rightarrow> log LogWarn ''Failed to post OnConfigChange message'' w2
                     | (Inr created, w2) \<Rightarrow> diffConfiguration_loop api c d rest w2))))"

definition diffConfiguration :: "'h api \<Rightarrow> addr \<Rightarrow> 'h world \<Rightarrow> 'h world" where
  "diffConfiguration api c w =
     (case getConfiguration w of
        (old, w1) \<Rightarrow>
          (let d = configurationDiff (confs w1 ! old) (confs w1 ! c)
           in if length d = 0 then w1
              else (case call (api_GetTeams api) w1 of
                      (Inl err, w2) \<Rightarrow> log LogWarn ''Failed to query teams OnConfigChange'' w2
                    | (Inr teams, w2) \<Rightarrow> diffConfiguration_loop api c d teams w2)))"

section \<open>Reload\<close>

text \<open>
  \<open>OnConfigurationChange\<close> (line 2472). The body is given in two parts, so that the
  state in which \<open>ensureDemoChannels\<close> is called has a name: lines 2473 to 2499 make
  the clone, load the settings into it and ensure the user and the bot; lines 2501 to
  2510 ensure the channels, send the diff and publish. The function returns a Go
  \<open>error\<close>: \<open>None\<close> is nil.
\<close>

definition OnConfigurationChange_prepare ::
  "'h api \<Rightarrow> 'h world \<Rightarrow> (go_error + addr) \<times> 'h world" where
  "OnConfigurationChange_prepare api w =
     (case getConfiguration (if client w then w else w\<lparr>client := True\<rparr>) of
        (cur, w1) \<Rightarrow>
     (case Clone cur w1 of
        (c, w2) \<Rightarrow>
     (case call (api_LoadPluginConfiguration api (confs w2 ! c)) w2 of
        (Inl loadConfigErr, w3) \<Rightarrow>
          (Inl (Wrap loadConfigErr ''failed to load plugin configuration''), w3)
      | (Inr loaded, w3) \<Rightarrow>
     (case ensureDemoUser api c (conf_update c (load_public loaded) w3) of
        (Inl err, w4) \<Rightarrow> (Inl (Wrap err ''failed to ensure demo user''), w4)
      | (Inr demoUserID', w4) \<Rightarrow>
     (case call (api_EnsureBot api
             \<lparr>bot_Username = ''demoplugin'',
              bot_DisplayName = ''Demo Plugin Bot'',
              bot_Description = ''A bot account created by the demo plugin.''\<rparr>)
            (conf_update c (\<lambda>conf. conf\<lparr>demoUserID := demoUserID'\<rparr>) w4) of
        (Inl ensureBotError, w5) \<Rightarrow> (Inl (Wrap ensureBotError ''failed to ensure demo bot''), w5)
      | (Inr botID', w5) \<Rightarrow> (Inr c, w5\<lparr>botID := botID'\<rparr>))))))"

definition OnConfigurationChange_publish ::
  "'h api \<Rightarrow> addr \<Rightarrow> 'h world \<Rightarrow> go_error option outcome \<times> 'h world" where
  "OnConfigurationChange_publish api c w =
     (case ensureDemoChannels api c w of
        ((m, err), w1) \<Rightarrow>
          (let w2 = conf_update c (\<lambda>conf. conf\<lparr>demoChannelIDs := m\<rparr>) w1
           in case err of
                Some e \<Rightarrow> (Returned (Some (Wrap e ''failed to ensure demo channels'')), w2)
              | None \<Rightarrow>
                  (case setConfiguration (Some c) (diffConfiguration api c w2) of
                     (Panicked s, w3) \<Rightarrow> (Panicked s, w3)
                   | (Returned u, w3) \<Rightarrow> (Returned None, w3))))"

definition OnConfigurationChange :: "'h api \<Rightarrow> 'h world \<Rightarrow> go_error option outcome \<times> 'h world" where
  "OnConfigurationChange api w =
     (case OnConfigurationChange_prepare api w of
        (Inl e, w1) \<Rightarrow> (Returned (Some e), w1)
      | (Inr c, w1) \<Rightarrow> OnConfigurationChange_publish api c w1)"

section \<open>Posting to the demo channels\<close>

text \<open>\<open>postPluginMessage\<close> (line 2213); the loop of lines 2234 to 2243 first.\<close>

fun postPluginMessage_loop ::
  "'h api \<Rightarrow> string list \<Rightarrow> string \<Rightarrow> 'h world \<Rightarrow> app_error option \<times> 'h world" where
  "postPluginMessage_loop api [] msg w = (None, w)"
| "postPluginMessage_loop api (channelID # rest) msg w =
     (case CreatePost api
             (zero_post\<lparr>post_UserId := botID w, post_ChannelId := channelID,
                        post_Message := msg\<rparr>) w of
        (Inl err, w1) \<Rightarrow> (Some err, w1)
      | (Inr created, w1) \<Rightarrow> postPluginMessage_loop api rest msg w1)"

definition postPluginMessage ::
  "'h api \<Rightarrow> string \<Rightarrow> string \<Rightarrow> 'h world \<Rightarrow> app_error option \<times> 'h world" where
  "postPluginMessage api teamID msg w =
     (case getConfiguration w of
        (c, w1) \<Rightarrow>
          (let conf = confs w1 ! c
           in if disabled conf then (None, w1)
              else
                (let msg1 = (if EnableMentionUser conf
                             then ''tag @'' @ MentionUser conf @ '' | '' @ msg else msg);
                     msg2 = TextStyle conf @ msg1 @ TextStyle conf
                 in if teamID \<noteq> ''''
                    then (case CreatePost api
                                 (zero_post\<lparr>post_UserId := botID w1,
                                            post_ChannelId :=
                                              map_index (map_entries (demoChannelIDs conf) w1) teamID,
                                            post_Message := msg2\<rparr>) w1 of
                            (Inl err, w2) \<Rightarrow> (Some err, w2)
                          | (Inr created, w2) \<Rightarrow> (None, w2))
                    else postPluginMessage_loop api
                           (map snd (map_entries (demoChannelIDs conf) w1)) msg2 w1)))"

section \<open>The background job\<close>

text \<open>
  \<open>BackgroundJob\<close> (http_hooks.go line 2248, the same text as command_hooks.go line
  305); the loop of lines 2255 to 2268 first.
\<close>

fun BackgroundJob_loop :: "'h api \<Rightarrow> string list \<Rightarrow> 'h world \<Rightarrow> 'h world" where
  "BackgroundJob_loop api [] w = w"
| "BackgroundJob_loop api (channelID # rest) w =
     (case CreatePost api
             (zero_post\<lparr>post_UserId := botID w, post_ChannelId := channelID,
                        post_Message := ''Background job executed''\<rparr>) w of
        (Inl err, w1) \<Rightarrow>
          BackgroundJob_loop api rest (log LogError ''Failed to post BackgroundJob message'' w1)
      | (Inr created, w1) \<Rightarrow> BackgroundJob_loop api rest w1)"

definition BackgroundJob :: "'h api \<Rightarrow> 'h world \<Rightarrow> 'h world" where
  "BackgroundJob api w =
     (case getConfiguration w of
        (c, w1) \<Rightarrow>
          (if disabled (confs w1 ! c) then w1
           else BackgroundJob_loop api
                  (map snd (map_entries (demoChannelIDs (confs w1 ! c)) w1)) w1))"

section \<open>The dialog submission handler\<close>

text \<open>
  \<open>model.SubmitDialogRequest\<close>, and what reading the request body gives: the decoder's
  error, or the request decoded.
\<close>

record submit_dialog_request =
  req_Type :: string
  req_URL :: string
  req_CallbackId :: string
  req_State :: string
  req_UserId :: string
  req_ChannelId :: string
  req_TeamId :: string
  Submission :: "(string \<times> json) list"
  Cancelled :: bool

definition zero_request :: submit_dialog_request where
  "zero_request =
     \<lparr>req_Type = '''', req_URL = '''', req_CallbackId = '''', req_State = '''',
      req_UserId = '''', req_ChannelId = '''', req_TeamId = '''', Submission = [],
      Cancelled = False\<rparr>"

text \<open>\<open>strings.Split\<close> with a separator of one byte: never the empty slice.\<close>

fun split_sep :: "char \<Rightarrow> string \<Rightarrow> string list" where
  "split_sep sep [] = [[]]"
| "split_sep sep (x # xs) =
     (if x = sep then [] # split_sep sep xs
      else (case split_sep sep xs of
              [] \<Rightarrow> [[x]]
            | y # ys \<Rightarrow> (x # y) # ys))"

text \<open>
  The name Go prints for the dynamic type of an \<open>interface{}\<close> value in the message
  of a failed type assertion.
\<close>

fun go_type_name :: "json \<Rightarrow> string" where
  "go_type_name JNull = ''nil''"
| "go_type_name (JBool b) = ''bool''"
| "go_type_name (JNumber x) = ''float64''"
| "go_type_name (JInt i) = ''int''"
| "go_type_name (JString s) = ''string''"
| "go_type_name (JArray xs) = ''[]interface {}''"
| "go_type_name (JObject kvs) = ''map[string]interface {}''"

text \<open>Lines 105 to 113: the colour of the attachment.\<close>

definition priority_color :: "string \<Rightarrow> string" where
  "priority_color priority =
     (if priority = ''High'' then ''#FF0000''
      else if priority = ''Medium'' then ''#FFA500''
      else if priority = ''Low'' then ''#000000''
      else '''')"

text \<open>Lines 115 to 128: one field for each entry of the submission that is not nil.\<close>

fun submission_fields :: "(string \<times> json) list \<Rightarrow> slack_attachment_field list" where
  "submission_fields [] = []"
| "submission_fields ((k, v) # rest) =
     (if v \<noteq> JNull
      then \<lparr>field_Title = last (split_sep CHR ''-'' k), field_Value = v\<rparr> # submission_fields rest
      else submission_fields rest)"

text \<open>Lines 149 to 171: the text of the reply.\<close>

definition tag_message :: "string \<Rightarrow> string" where
  "tag_message TagUsers =
     (if TagUsers = '''' then ''Update the plugin configuration to tag users in the future.''
      else (let msg = ''cc:'' @ concat (map (\<lambda>v. ''@'' @ v @ '', '') (split_sep CHR '','' TagUsers))
            in if length msg > 0 then take (length msg - 2) msg else msg))"

text \<open>The loop over the teams, lines 61 to 72; the error of a post is dropped.\<close>

fun handleDialog_teams :: "'h api \<Rightarrow> string \<Rightarrow> addr \<Rightarrow> team list \<Rightarrow> 'h world \<Rightarrow> 'h world" where
  "handleDialog_teams api manifest_Id c [] w = w"
| "handleDialog_teams api manifest_Id c (t # rest) w =
     (case map_of (map_entries (demoChannelIDs (confs w ! c)) w) (team_Id t) of
        None \<Rightarrow>
          handleDialog_teams api manifest_Id c rest (log LogWarn ''No demo channel id for team'' w)
      | Some ch \<Rightarrow>
          handleDialog_teams api manifest_Id c rest
            (snd (postPluginMessage api (team_Id t) (''OnActivate: '' @ manifest_Id) w)))"

text \<open>
  Lines 115 to 193, with the user and the priority at hand. \<open>p.configuration\<close> is read
  without \<open>getConfiguration\<close>, so a nil pointer panics. The struct of this version of
  the file has two fields, \<open>ChannelID\<close> and \<open>TagUsers\<close>, and its declaration is not in
  the sources: their values in the published struct are the parameters \<open>ChannelID\<close> and
  \<open>TagUsers\<close>. The result is the status handed to \<open>WriteHeader\<close>, if any.
\<close>

definition handleDialog_post ::
  "'h api \<Rightarrow> string \<Rightarrow> string \<Rightarrow> submit_dialog_request \<Rightarrow> user \<Rightarrow> string \<Rightarrow> 'h world
     \<Rightarrow> int option outcome \<times> 'h world" where
  "handleDialog_post api ChannelID TagUsers request usr priority w =
     (let color = priority_color priority;
          fields = submission_fields (Submission request)
      in case configuration_ptr w of
           None \<Rightarrow> (Panicked ''runtime error: invalid memory address or nil pointer dereference'', w)
         | Some published \<Rightarrow>
             (case CreatePost api
                     (zero_post\<lparr>post_UserId := botID w,
                                post_ChannelId := ChannelID,
                                post_Message := ''@'' @ user_Username usr @ '' submitted a ticket'' @ [CHR 0x0A],
                                post_Type := ''custom_demo_plugin'',
                                post_Props :=
                                  [(''attachments'',
                                    Attachments [\<lparr>Fallback = ''test'', Color = color, Fields = fields\<rparr>])]\<rparr>) w of
                (Inl appErr, w1) \<Rightarrow> (Returned None, log LogError ''Failed to post handleDialog message'' w1)
              | (Inr rootPost, w1) \<Rightarrow>
                  (let msg = tag_message TagUsers
                   in if \<not> Cancelled request
                      then (case CreatePost api
                                   (zero_post\<lparr>post_UserId := botID w1,
                                              post_ChannelId := ChannelID,
                                              post_RootId := post_Id rootPost,
                                              post_Message := msg,
                                              post_Type := ''custom_demo_plugin''\<rparr>) w1 of
                              (Inl appErr, w2) \<Rightarrow>
                                (Returned None, log LogError ''Failed to post handleDialog message'' w2)
                            | (Inr reply, w2) \<Rightarrow> (Returned (Some 200), w2))
                      else (Returned (Some 200), w1))))"

text \<open>
  \<open>handleDialog\<close> (line 52). \<open>manifest_Id\<close> is the constant \<open>manifest.Id\<close> of the
  plugin's manifest; \<open>body\<close> is what decoding the request body gives. The type assertion
  of line 104 panics unless the submission binds the key to a string, with Go's message
  for the value found.
\<close>

definition handleDialog ::
  "'h api \<Rightarrow> string \<Rightarrow> string \<Rightarrow> string \<Rightarrow> string + submit_dialog_request \<Rightarrow> 'h world
     \<Rightarrow> int option outcome \<times> 'h world" where
  "handleDialog api manifest_Id ChannelID TagUsers body w =
     (case getConfiguration w of
        (c, w1) \<Rightarrow>
     (case call (api_GetTeams api) w1 of
        (r, w2) \<Rightarrow>
     (let teams = (case r of Inl err2 \<Rightarrow> [] | Inr ts \<Rightarrow> ts);
          w3 = handleDialog_teams api manifest_Id c teams w2
      in if Cancelled zero_request then (Returned None, w3)
         else
           (case body of
              Inl err \<Rightarrow> (Returned (Some 400), log LogError ''Failed to decode SubmitDialogRequest'' w3)
            | Inr request \<Rightarrow>
                (case call (api_GetUser api (req_UserId request)) w3 of
                   (Inl appErr, w4) \<Rightarrow>
                     (Returned (Some 200), log LogError ''Failed to get user for dialog'' w4)
                 | (Inr usr, w4) \<Rightarrow>
                     (case map_of (Submission request) ''4-User Impact'' of
                        Some (JString priority) \<Rightarrow>
                          handleDialog_post api ChannelID TagUsers request usr priority w4
                      | Some other \<Rightarrow>
                          (Panicked (''interface conversion: interface {} is '' @ go_type_name other @
                                     '', not string''), w4)
                      | None \<Rightarrow>
                          (Panicked ''interface conversion: interface {} is nil, not string'', w4)))))))"

section \<open>Mutations of a map object\<close>

text \<open>
  What a holder of a map reference can do to the map: bind a key (new or bound already)
  or delete one, any number of times.
\<close>

datatype map_op = Assign string string | Delete string

fun apply_map_ops :: "addr \<Rightarrow> map_op list \<Rightarrow> 'h world \<Rightarrow> 'h world" where
  "apply_map_ops m [] w = w"
| "apply_map_ops m (Assign key val # ops) w = apply_map_ops m ops (map_assign m key val w)"
| "apply_map_ops m (Delete key # ops) w = apply_map_ops m ops (map_delete m key w)"

section \<open>Example states\<close>

text \<open>A plugin with one published configuration, whose map binds one team.\<close>

definition example_world :: "unit world" where
  "example_world =
     \<lparr>host = (),
      confs = [zero_configuration\<lparr>Username := ''demo_user'', ChannelName := ''demo'',
                                  demoChannelIDs := Some 0\<rparr>],
      maps = [[(''team1'', ''chan1'')]],
      configuration_ptr = Some 0,
      botID = ''bot'',
      client = True,
      post_calls = [],
      logs = []\<rparr>"

text \<open>The same plugin, disabled.\<close>

definition disabled_world :: "unit world" where
  "disabled_world = conf_update 0 (\<lambda>conf. conf\<lparr>disabled := True\<rparr>) example_world"

text \<open>
  A host with two teams and no demo channel yet. It finds the demo user, ensures the bot
  and creates a channel for every team but \<open>team2\<close>, for which creation fails.
\<close>

definition example_user :: user where
  "example_user =
     \<lparr>user_Id = ''user1'', user_Username = ''demo_user'', user_Password = '''',
      user_Email = ''demo_user@example.com'', user_Nickname = ''Demo Day'',
      user_FirstName = ''Demo'', user_LastName = '''', user_Position = ''Bot''\<rparr>"

definition example_api :: "unit api" where
  "example_api =
     \<lparr>api_GetTeams =
        (\<lambda>h. (Inr [\<lparr>team_Id = ''team1'', team_Name = ''one''\<rparr>,
                    \<lparr>team_Id = ''team2'', team_Name = ''two''\<rparr>], h)),
      api_GetChannelByNameForTeamName = (\<lambda>teamName name deleted h. (None, h)),
      api_CreateChannel =
        (\<lambda>ch h. (if channel_TeamId ch = ''team2''
                  then Inl \<lparr>StatusCode = 500, err_Message = ''cannot create channel''\<rparr>
                  else Inr (ch\<lparr>channel_Id := ''new-'' @ channel_TeamId ch\<rparr>), h)),
      api_GetUserByUsername = (\<lambda>name h. (Inr example_user, h)),
      api_GetUser = (\<lambda>uid h. (Inr example_user, h)),
      api_CreateUser = (\<lambda>usr h. (Inr usr, h)),
      api_UpdateUser = (\<lambda>usr h. (Inr usr, h)),
      api_CreateTeamMember = (\<lambda>teamId userId h. (None, h)),
      api_LoadPluginConfiguration =
        (\<lambda>conf h. (Inr (conf\<lparr>Username := ''demo_user'', ChannelName := ''demo''\<rparr>), h)),
      api_EnsureBot = (\<lambda>b h. (Inr ''bot1'', h)),
      api_UploadFile = (\<lambda>data channelId name h. (Inr ''file1'', h)),
      api_CreatePost = (\<lambda>p h. (Inr (p\<lparr>post_Id := ''post1''\<rparr>), h)),
      json_Marshal = (\<lambda>conf. Inr ''{}'')\<rparr>"

text \<open>The same host with no team at all.\<close>

definition no_teams_api :: "unit api" where
  "no_teams_api = example_api\<lparr>api_GetTeams := (\<lambda>h. (Inr [], h))\<rparr>"

section \<open>What a call leaves alone\<close>

text \<open>
  \<open>keeps n k w w'\<close>: from \<open>w\<close> to \<open>w'\<close> the published pointer is the same, no object
  is gone, and the first \<open>n\<close> structs and the first \<open>k\<close> map objects are as they were.
\<close>

definition keeps :: "nat \<Rightarrow> nat \<Rightarrow> 'h world \<Rightarrow> 'h world \<Rightarrow> bool" where
  "keeps n k w w' \<longleftrightarrow>
     configuration_ptr w' = configuration_ptr w \<and>
     length (confs w) \<le> length (confs w') \<and>
     length (maps w) \<le> length (maps w') \<and>
     take n (confs w') = take n (confs w) \<and>
     take k (maps w') = take k (maps w)"

text \<open>The published snapshot: the struct the pointer names and the entries of its map.\<close>

definition published_snapshot :: "'h world \<Rightarrow> (configuration \<times> gomap) option" where
  "published_snapshot w =
     (case configuration_ptr w of
        None \<Rightarrow> None
      | Some a \<Rightarrow> Some (confs w ! a, map_entries (demoChannelIDs (confs w ! a)) w))"

text \<open>The colours of the attachments of the posts handed to the host, in order.\<close>

definition post_colors :: "post \<Rightarrow> string list" where
  "post_colors p =
     concat (map (\<lambda>(k, v). case v of Attachments as \<Rightarrow> map Color as | Plain j \<Rightarrow> [])
               (post_Props p))"

definition attachment_colors :: "post list \<Rightarrow> string list" where
  "attachment_colors ps = concat (map post_colors ps)"

text \<open>A plugin that has published nothing yet.\<close>

definition fresh_world :: "unit world" where
  "fresh_world =
     \<lparr>host = (), confs = [], maps = [], configuration_ptr = None, botID = '''',
      client = False, post_calls = [], logs = []\<rparr>"

text \<open>A dialog submission whose user impact is none of the three known values.\<close>

definition urgent_request :: submit_dialog_request where
  "urgent_request =
     zero_request\<lparr>req_UserId := ''user1'',
                  Submission := [(''1-Summary'', JString ''disk full''),
                                 (''4-User Impact'', JString ''Urgent'')]\<rparr>"

text \<open>A host like the example host, except that it creates every channel.\<close>

definition creating_api :: "unit api" where
  "creating_api =
     example_api\<lparr>api_CreateChannel :=
       (\<lambda>ch h. (Inr (ch\<lparr>channel_Id := ''new-'' @ channel_TeamId ch\<rparr>), h))\<rparr>"

section \<open>What it is for a channel to be ensured\<close>

text \<open>
  The channel \<open>ensureDemoChannels\<close> asks the host to create for a team (lines 2657 to
  2664), and what it is for an id to be the id of the channel the host found or created
  for a team: the lookup by the team's name and the channel name gave a channel with
  that id, or the lookup gave nothing and the creation request gave a channel with that
  id.
\<close>

definition demo_channel_request :: "string \<Rightarrow> string \<Rightarrow> channel" where
  "demo_channel_request teamId name =
     \<lparr>channel_Id = '''',
      channel_TeamId = teamId,
      channel_Type = ''O'',
      channel_DisplayName = ''Demo Plugin'',
      channel_Name = name,
      channel_Header = ''The channel used by the demo plugin.'',
      channel_Purpose = ''This channel was created by a plugin for testing.''\<rparr>"

definition ensured_by :: "'h api \<Rightarrow> string \<Rightarrow> team \<Rightarrow> string \<Rightarrow> bool" where
  "ensured_by api name t cid \<longleftrightarrow>
     (\<exists>h ch. fst (api_GetChannelByNameForTeamName api (team_Name t) name False h) = Some ch \<and>
             channel_Id ch = cid) \<or>
     (\<exists>h h' ch. fst (api_GetChannelByNameForTeamName api (team_Name t) name False h) = None \<and>
                fst (api_CreateChannel api (demo_channel_request (team_Id t) name) h') = Inr ch \<and>
                channel_Id ch = cid)"

text \<open>
  The channel step as the host sees it, to be compared with \<open>ensureDemoChannels_loop\<close>:
  the teams in the order reported, each looked up by its name and the channel name, and
  created when the lookup gives nothing, up to the first creation the host refuses.
  The result is the host's error or the bindings made, with the state of the host after
  the last call.
\<close>

fun ensured_channels ::
  "'h api \<Rightarrow> string \<Rightarrow> team list \<Rightarrow> gomap \<Rightarrow> 'h \<Rightarrow> (app_error + gomap) \<times> 'h" where
  "ensured_channels api name [] kvs h = (Inr kvs, h)"
| "ensured_channels api name (t # rest) kvs h =
     (case api_GetChannelByNameForTeamName api (team_Name t) name False h of
        (Some ch, h1) \<Rightarrow>
          ensured_channels api name rest (AList.update (team_Id t) (channel_Id ch) kvs) h1
      | (None, h1) \<Rightarrow>
          (case api_CreateChannel api (demo_channel_request (team_Id t) name) h1 of
             (Inl err, h2) \<Rightarrow> (Inl err, h2)
           | (Inr ch, h2) \<Rightarrow>
               ensured_channels api name rest (AList.update (team_Id t) (channel_Id ch) kvs) h2))"

text \<open>A host like the example host, except that it cannot look the demo user up.\<close>

definition user_failing_api :: "unit api" where
  "user_failing_api =
     example_api\<lparr>api_GetUserByUsername :=
       (\<lambda>name h. (Inl \<lparr>StatusCode = 500, err_Message = ''cannot read user''\<rparr>, h))\<rparr>"

section \<open>Properties of the store\<close>

lemma fold_update_lookup:
  "distinct (map fst es) \<Longrightarrow>
   map_of (fold (\<lambda>(k, v). AList.update k v) es al) = map_of al ++ map_of es"
proof (induction es arbitrary: al)
  case Nil
  then show ?case by simp
next
  case (Cons e es)
  obtain k v where e: "e = (k, v)" by (cases e)
  from Cons.prems e have nk: "map_of es k = None" and d: "distinct (map fst es)"
    by (auto simp: map_of_eq_None_iff)
  have "map_of (fold (\<lambda>(k, v). AList.update k v) (e # es) al)
      = map_of (AList.update k v al) ++ map_of es"
    using Cons.IH [OF d, of "AList.update k v al"] e by simp
  also have "\<dots> = (map_of al)(k \<mapsto> v) ++ map_of es"
    by (simp only: update_conv')
  also have "\<dots> = map_of al ++ map_of (e # es)"
    using nk e by (auto simp: map_add_def fun_eq_iff split: option.splits)
  finally show ?case .
qed

lemma Clone_loop_eq:
  "m < length (maps w) \<Longrightarrow>
   Clone_loop es m w =
     w\<lparr>maps := (maps w)[m := fold (\<lambda>(k, v). AList.update k v) es (maps w ! m)]\<rparr>"
proof (induction es m w rule: Clone_loop.induct)
  case (1 m w)
  then show ?case by simp
next
  case (2 key val rest m w)
  have len: "m < length (maps (map_assign m key val w))"
    using "2.prems" by (simp add: map_assign_def)
  show ?case
    using "2.IH" [OF len] "2.prems" by (simp add: map_assign_def)
qed

lemma Clone_eq:
  "Clone c w =
     (length (confs w),
      w\<lparr>maps := maps w @ [fold (\<lambda>(k, v). AList.update k v)
                              (map_entries (demoChannelIDs (confs w ! c)) w) []],
        confs := confs w @ [(confs w ! c)\<lparr>demoChannelIDs := Some (length (maps w))\<rparr>]\<rparr>)"
proof -
  let ?w1 = "w\<lparr>maps := maps w @ [[]]\<rparr>"
  have "length (maps w) < length (maps ?w1)" by simp
  from Clone_loop_eq [OF this]
  have "Clone_loop (map_entries (demoChannelIDs (confs w ! c)) w) (length (maps w)) ?w1 =
        w\<lparr>maps := maps w @ [fold (\<lambda>(k, v). AList.update k v)
                                (map_entries (demoChannelIDs (confs w ! c)) w) []]\<rparr>"
    by simp
  then show ?thesis
    by (simp add: Clone_def make_map_def new_configuration_def)
qed

lemma apply_map_ops_frame:
  "confs (apply_map_ops m ops w) = confs w \<and>
   length (maps (apply_map_ops m ops w)) = length (maps w) \<and>
   (\<forall>n. n \<noteq> m \<longrightarrow> maps (apply_map_ops m ops w) ! n = maps w ! n)"
  by (induction m ops w rule: apply_map_ops.induct)
     (simp_all add: map_assign_def map_delete_def)

section \<open>Frame properties\<close>


lemma call_frame [simp]:
  "confs (snd (call f w)) = confs w"
  "maps (snd (call f w)) = maps w"
  "configuration_ptr (snd (call f w)) = configuration_ptr w"
  "botID (snd (call f w)) = botID w"
  "client (snd (call f w)) = client w"
  "post_calls (snd (call f w)) = post_calls w"
  "logs (snd (call f w)) = logs w"
  by (simp_all add: call_def case_prod_unfold)

lemma log_frame [simp]:
  "confs (log lvl msg w) = confs w"
  "maps (log lvl msg w) = maps w"
  "configuration_ptr (log lvl msg w) = configuration_ptr w"
  "botID (log lvl msg w) = botID w"
  "client (log lvl msg w) = client w"
  "post_calls (log lvl msg w) = post_calls w"
  "host (log lvl msg w) = host w"
  by (simp_all add: log_def)

lemma CreatePost_frame [simp]:
  "confs (snd (CreatePost api p w)) = confs w"
  "maps (snd (CreatePost api p w)) = maps w"
  "configuration_ptr (snd (CreatePost api p w)) = configuration_ptr w"
  "botID (snd (CreatePost api p w)) = botID w"
  "client (snd (CreatePost api p w)) = client w"
  "post_calls (snd (CreatePost api p w)) = post_calls w @ [p]"
  "logs (snd (CreatePost api p w)) = logs w"
  by (simp_all add: CreatePost_def case_prod_unfold)

lemma keeps_refl [simp]: "keeps n k w w"
  by (simp add: keeps_def)

lemma keeps_trans: "keeps n k w w1 \<Longrightarrow> keeps n k w1 w2 \<Longrightarrow> keeps n k w w2"
  by (auto simp: keeps_def)

lemma keeps_call [simp]: "keeps n k w (snd (call f w))"
  by (simp add: keeps_def)

lemma keeps_log [simp]: "keeps n k w (log lvl msg w)"
  by (simp add: keeps_def)

lemma keeps_CreatePost [simp]: "keeps n k w (snd (CreatePost api p w))"
  by (simp add: keeps_def)

lemma keeps_getConfiguration:
  "n \<le> length (confs w) \<Longrightarrow> keeps n k w (snd (getConfiguration w))"
  by (simp add: keeps_def getConfiguration_def new_configuration_def split: option.splits)

lemma keeps_Clone:
  "n \<le> length (confs w) \<Longrightarrow> k \<le> length (maps w) \<Longrightarrow> keeps n k w (snd (Clone c w))"
  by (simp add: keeps_def Clone_eq)

lemma keeps_conf_update:
  "n \<le> c \<Longrightarrow> keeps n k w (conf_update c f w)"
  by (simp add: keeps_def conf_update_def)

lemma keeps_map_assign:
  "k \<le> m \<Longrightarrow> keeps n k w (map_assign m key val w)"
  by (simp add: keeps_def map_assign_def)

lemma keeps_make_map:
  "k \<le> length (maps w) \<Longrightarrow> keeps n k w (snd (make_map w))"
  by (simp add: keeps_def make_map_def)


lemma ensureDemoUser_loop_frame [simp]:
  "confs (ensureDemoUser_loop api ts uid w) = confs w \<and>
   maps (ensureDemoUser_loop api ts uid w) = maps w \<and>
   configuration_ptr (ensureDemoUser_loop api ts uid w) = configuration_ptr w"
  by (induction ts arbitrary: w) (simp_all add: case_prod_unfold split: option.splits)

lemma ensureDemoUser_found_frame [simp]:
  "confs (snd (ensureDemoUser_found api c usr w)) = confs w \<and>
   maps (snd (ensureDemoUser_found api c usr w)) = maps w \<and>
   configuration_ptr (snd (ensureDemoUser_found api c usr w)) = configuration_ptr w"
  by (simp add: ensureDemoUser_found_def case_prod_unfold split: sum.splits)

lemma ensureDemoUser_frame [simp]:
  "confs (snd (ensureDemoUser api c w)) = confs w \<and>
   maps (snd (ensureDemoUser api c w)) = maps w \<and>
   configuration_ptr (snd (ensureDemoUser api c w)) = configuration_ptr w"
  by (simp add: ensureDemoUser_def case_prod_unfold split: sum.splits)

lemma getConfiguration_frame [simp]:
  "maps (snd (getConfiguration w)) = maps w \<and>
   configuration_ptr (snd (getConfiguration w)) = configuration_ptr w \<and>
   botID (snd (getConfiguration w)) = botID w \<and>
   host (snd (getConfiguration w)) = host w \<and>
   post_calls (snd (getConfiguration w)) = post_calls w \<and>
   logs (snd (getConfiguration w)) = logs w \<and>
   take (length (confs w)) (confs (snd (getConfiguration w))) = confs w \<and>
   length (confs w) \<le> length (confs (snd (getConfiguration w)))"
  by (simp add: getConfiguration_def new_configuration_def split: option.splits)

lemma getConfiguration_valid:
  "heap_ok w \<Longrightarrow> fst (getConfiguration w) < length (confs (snd (getConfiguration w)))"
  by (simp add: getConfiguration_def new_configuration_def heap_ok_def split: option.splits)

lemma ensureDemoChannels_loop_frame [simp]:
  "confs (snd (ensureDemoChannels_loop api c ts m w)) = confs w \<and>
   configuration_ptr (snd (ensureDemoChannels_loop api c ts m w)) = configuration_ptr w \<and>
   length (maps (snd (ensureDemoChannels_loop api c ts m w))) = length (maps w) \<and>
   take m (maps (snd (ensureDemoChannels_loop api c ts m w))) = take m (maps w)"
  by (induction ts arbitrary: w)
     (simp_all add: case_prod_unfold map_assign_def split: option.splits sum.splits)

lemma ensureDemoChannels_loop_result:
  "fst (ensureDemoChannels_loop api c ts m w) = (Some m, None) \<or>
   (\<exists>e. fst (ensureDemoChannels_loop api c ts m w) = (None, Some e))"
  by (induction ts arbitrary: w)
     (simp_all add: case_prod_unfold split: option.splits sum.splits)

lemma ensureDemoChannels_frame [simp]:
  "confs (snd (ensureDemoChannels api c w)) = confs w \<and>
   configuration_ptr (snd (ensureDemoChannels api c w)) = configuration_ptr w \<and>
   length (maps w) \<le> length (maps (snd (ensureDemoChannels api c w))) \<and>
   take (length (maps w)) (maps (snd (ensureDemoChannels api c w))) = maps w"
  by (simp add: ensureDemoChannels_def make_map_def case_prod_unfold split: sum.splits)

lemma diffConfiguration_loop_frame [simp]:
  "confs (diffConfiguration_loop api c d ts w) = confs w \<and>
   maps (diffConfiguration_loop api c d ts w) = maps w \<and>
   configuration_ptr (diffConfiguration_loop api c d ts w) = configuration_ptr w"
  by (induction ts arbitrary: w)
     (simp_all add: case_prod_unfold split: option.splits sum.splits)

lemma diffConfiguration_frame [simp]:
  "maps (diffConfiguration api c w) = maps w \<and>
   configuration_ptr (diffConfiguration api c w) = configuration_ptr w \<and>
   take (length (confs w)) (confs (diffConfiguration api c w)) = confs w \<and>
   length (confs w) \<le> length (confs (diffConfiguration api c w))"
  by (simp add: diffConfiguration_def case_prod_unfold Let_def split: sum.splits)

lemma Clone_frame [simp]:
  "fst (Clone c w) = length (confs w) \<and>
   length (confs (snd (Clone c w))) = Suc (length (confs w)) \<and>
   length (maps (snd (Clone c w))) = Suc (length (maps w)) \<and>
   configuration_ptr (snd (Clone c w)) = configuration_ptr w"
  by (simp add: Clone_eq)

lemma prepare_tail:
  assumes g: "getConfiguration (if client w then w else w\<lparr>client := True\<rparr>) = (cur, w1)"
    and cl: "Clone cur w1 = (c, w2)"
    and n: "n \<le> c" and c: "c < length (confs w2)"
  shows "keeps n k w2 (snd (OnConfigurationChange_prepare api w)) \<and>
         (\<forall>c'. fst (OnConfigurationChange_prepare api w) = Inr c' \<longrightarrow> c' = c)"
  using n c
  by (simp add: OnConfigurationChange_prepare_def g cl keeps_def conf_update_def
        case_prod_unfold split: sum.splits)

lemma prepare_frame:
  "keeps (length (confs w)) (length (maps w)) w (snd (OnConfigurationChange_prepare api w)) \<and>
   (\<forall>c. fst (OnConfigurationChange_prepare api w) = Inr c \<longrightarrow>
      length (confs w) \<le> c \<and> c < length (confs (snd (OnConfigurationChange_prepare api w))))"
proof -
  let ?n = "length (confs w)" and ?k = "length (maps w)"
  let ?w0 = "if client w then w else w\<lparr>client := True\<rparr>"
  obtain cur w1 where g: "getConfiguration ?w0 = (cur, w1)" by (metis surj_pair)
  obtain c w2 where cl: "Clone cur w1 = (c, w2)" by (metis surj_pair)
  have k0: "keeps ?n ?k w ?w0" by (simp add: keeps_def)
  have k1: "keeps ?n ?k ?w0 w1"
    using keeps_getConfiguration [of ?n ?w0 ?k] g by simp
  have k01: "keeps ?n ?k w w1" by (rule keeps_trans [OF k0 k1])
  have l1: "?n \<le> length (confs w1)" "?k \<le> length (maps w1)"
    using k01 by (simp_all add: keeps_def)
  have k2: "keeps ?n ?k w1 w2"
    using keeps_Clone [OF l1, of cur] cl by simp
  have c: "c = length (confs w1)" "length (confs w2) = Suc (length (confs w1))"
    using Clone_frame [of cur w1] cl by simp_all
  have nc: "?n \<le> c" "c < length (confs w2)"
    using c l1 by simp_all
  note t = prepare_tail [OF g cl nc, of ?k api]
  have k3: "keeps ?n ?k w (snd (OnConfigurationChange_prepare api w))"
    using keeps_trans [OF keeps_trans [OF k01 k2]] t by blast
  have "length (confs w2) \<le> length (confs (snd (OnConfigurationChange_prepare api w)))"
    using t by (simp add: keeps_def)
  with nc t k3 show ?thesis by auto
qed

lemma keeps_snapshot:
  assumes ok: "heap_ok w" and k: "keeps (length (confs w)) (length (maps w)) w w'"
  shows "published_snapshot w' = published_snapshot w"
proof (cases "configuration_ptr w")
  case None
  with k show ?thesis by (simp add: published_snapshot_def keeps_def)
next
  case (Some a)
  with ok have a: "a < length (confs w)" by (simp add: heap_ok_def)
  from k have tc: "take (length (confs w)) (confs w') = confs w"
    and tm: "take (length (maps w)) (maps w') = maps w"
    and p: "configuration_ptr w' = configuration_ptr w"
    by (simp_all add: keeps_def)
  have ca: "confs w' ! a = confs w ! a"
    using a tc by (metis nth_take)
  have me: "map_entries (demoChannelIDs (confs w ! a)) w' = map_entries (demoChannelIDs (confs w ! a)) w"
  proof (cases "demoChannelIDs (confs w ! a)")
    case None
    then show ?thesis by (simp add: map_entries_def)
  next
    case (Some m)
    with ok a have "m < length (maps w)"
      by (auto simp: heap_ok_def list_all_length split: option.splits)
    with tm have "maps w' ! m = maps w ! m" by (metis nth_take)
    with Some show ?thesis by (simp add: map_entries_def)
  qed
  show ?thesis using Some p ca me by (simp add: published_snapshot_def)
qed

lemma take_prefix:
  "take (length xs) ys = xs \<Longrightarrow> n \<le> length xs \<Longrightarrow> take n ys = take n xs"
  by (metis min.absorb1 take_take)

lemma keeps_ensureDemoChannels:
  "k \<le> length (maps w) \<Longrightarrow> keeps n k w (snd (ensureDemoChannels api c w))"
  by (simp add: keeps_def take_prefix)

lemma keeps_diffConfiguration:
  "n \<le> length (confs w) \<Longrightarrow> keeps n k w (diffConfiguration api c w)"
  by (simp add: keeps_def take_prefix)

lemma keeps_length:
  "keeps n k w w' \<Longrightarrow> length (confs w) \<le> length (confs w') \<and> length (maps w) \<le> length (maps w')"
  by (simp add: keeps_def)

lemma publish_error_frame:
  assumes err: "fst (OnConfigurationChange_publish api c w) \<noteq> Returned None"
    and nc: "n \<le> c" and n: "n \<le> length (confs w)" and k: "k \<le> length (maps w)"
  shows "keeps n k w (snd (OnConfigurationChange_publish api c w))"
proof -
  obtain m e w1 where ch: "ensureDemoChannels api c w = ((m, e), w1)"
    by (metis surj_pair)
  define w2 where "w2 = conf_update c (\<lambda>conf. conf\<lparr>demoChannelIDs := m\<rparr>) w1"
  have k1: "keeps n k w w1"
    using keeps_ensureDemoChannels [OF k, of n api c] ch by simp
  have k2: "keeps n k w1 w2"
    unfolding w2_def by (rule keeps_conf_update [OF nc])
  have k12: "keeps n k w w2"
    by (rule keeps_trans [OF k1 k2])
  show ?thesis
  proof (cases e)
    case (Some x)
    then show ?thesis
      using ch k12 by (simp add: OnConfigurationChange_publish_def w2_def)
  next
    case None
    define w3 where "w3 = diffConfiguration api c w2"
    have "n \<le> length (confs w2)"
      using keeps_length [OF k12] n by simp
    then have k3: "keeps n k w2 w3"
      unfolding w3_def by (rule keeps_diffConfiguration)
    have k13: "keeps n k w w3"
      by (rule keeps_trans [OF k12 k3])
    have run: "OnConfigurationChange_publish api c w =
          (case setConfiguration (Some c) w3 of
             (Panicked s, w4) \<Rightarrow> (Panicked s, w4)
           | (Returned u, w4) \<Rightarrow> (Returned None, w4))"
      using ch None by (simp add: OnConfigurationChange_publish_def w2_def w3_def)
    show ?thesis
    proof (cases "configuration_ptr w3 = Some c")
      case True
      then show ?thesis
        using run k13 by (simp add: setConfiguration_def)
    next
      case False
      then have "fst (OnConfigurationChange_publish api c w) = Returned None"
        using run by (simp add: setConfiguration_def)
      with err show ?thesis by simp
    qed
  qed
qed

lemma call_fst [simp]: "fst (call f w) = fst (f (host w))"
  by (simp add: call_def case_prod_unfold)

lemma ensureDemoChannels_loop_fails:
  assumes nf: "\<And>name h. fst (api_GetChannelByNameForTeamName api (team_Name t) name False h) = None"
    and cf: "\<And>ch h. channel_TeamId ch = team_Id t \<Longrightarrow> \<exists>e. fst (api_CreateChannel api ch h) = Inl e"
  shows "t \<in> set ts \<Longrightarrow> \<exists>e. fst (ensureDemoChannels_loop api c ts m w) = (None, Some e)"
proof (induction ts arbitrary: w)
  case Nil
  then show ?case by simp
next
  case (Cons t' rest)
  show ?case
  proof (cases "t' = t")
    case True
    let ?w1 = "snd (call (api_GetChannelByNameForTeamName api (team_Name t)
                            (ChannelName (confs w ! c)) False) w)"
    let ?ch = "\<lparr>channel_Id = '''', channel_TeamId = team_Id t, channel_Type = ''O'',
                channel_DisplayName = ''Demo Plugin'',
                channel_Name = ChannelName (confs ?w1 ! c),
                channel_Header = ''The channel used by the demo plugin.'',
                channel_Purpose = ''This channel was created by a plugin for testing.''\<rparr>"
    from cf [of ?ch "host ?w1"] obtain e where
      e: "fst (api_CreateChannel api ?ch (host ?w1)) = Inl e" by auto
    show ?thesis
      using True nf e by (simp add: case_prod_unfold)
  next
    case False
    with Cons.prems have "t \<in> set rest" by simp
    from Cons.IH [OF this] show ?thesis
      by (simp add: case_prod_unfold split: option.splits sum.splits)
  qed
qed

lemma ensureDemoChannels_loop_keys:
  "m < length (maps w) \<Longrightarrow> snd (fst (ensureDemoChannels_loop api c ts m w)) = None \<Longrightarrow>
   fst ` set (maps (snd (ensureDemoChannels_loop api c ts m w)) ! m) =
     fst ` set (maps w ! m) \<union> team_Id ` set ts"
proof (induction ts arbitrary: w)
  case Nil
  then show ?case by simp
next
  case (Cons t rest)
  have step: "\<And>w1 v. m < length (maps w1) \<Longrightarrow> maps w1 = maps w \<Longrightarrow>
      snd (fst (ensureDemoChannels_loop api c rest m (map_assign m (team_Id t) v w1))) = None \<Longrightarrow>
      fst ` set (maps (snd (ensureDemoChannels_loop api c rest m (map_assign m (team_Id t) v w1))) ! m) =
        fst ` set (maps w ! m) \<union> team_Id ` set (t # rest)"
  proof -
    fix w1 :: "'a world" and v
    assume len: "m < length (maps w1)" and same: "maps w1 = maps w"
      and ok: "snd (fst (ensureDemoChannels_loop api c rest m (map_assign m (team_Id t) v w1))) = None"
    have len': "m < length (maps (map_assign m (team_Id t) v w1))"
      using len by (simp add: map_assign_def)
    have "fst ` set (maps (map_assign m (team_Id t) v w1) ! m) = insert (team_Id t) (fst ` set (maps w ! m))"
      using len same by (simp add: map_assign_def dom_update)
    with Cons.IH [OF len' ok]
    show "fst ` set (maps (snd (ensureDemoChannels_loop api c rest m (map_assign m (team_Id t) v w1))) ! m) =
        fst ` set (maps w ! m) \<union> team_Id ` set (t # rest)"
      by auto
  qed
  show ?case
    using Cons.prems step
    by (simp add: case_prod_unfold split: option.splits sum.splits)
qed

lemma publish_channels_error:
  "snd (fst (ensureDemoChannels api c w)) = Some e \<Longrightarrow>
   fst (OnConfigurationChange_publish api c w) =
     Returned (Some (Wrap e ''failed to ensure demo channels''))"
  by (simp add: OnConfigurationChange_publish_def case_prod_unfold Let_def)

lemma ensureDemoChannels_fails:
  assumes teams: "fst (api_GetTeams api (host w)) = Inr ts" and t: "t \<in> set ts"
    and nf: "\<And>name h. fst (api_GetChannelByNameForTeamName api (team_Name t) name False h) = None"
    and cf: "\<And>ch h. channel_TeamId ch = team_Id t \<Longrightarrow> \<exists>e. fst (api_CreateChannel api ch h) = Inl e"
  shows "\<exists>e. snd (fst (ensureDemoChannels api c w)) = Some e"
proof -
  let ?w2 = "snd (make_map (snd (call (api_GetTeams api) w)))"
  from ensureDemoChannels_loop_fails [of api t ts c "fst (make_map (snd (call (api_GetTeams api) w)))" ?w2, OF nf cf t]
  obtain e where "fst (ensureDemoChannels_loop api c ts (fst (make_map (snd (call (api_GetTeams api) w)))) ?w2) = (None, Some e)"
    by blast
  then show ?thesis
    using teams by (simp add: ensureDemoChannels_def case_prod_unfold)
qed

lemma loop_found:
  "fst (api_GetChannelByNameForTeamName api (team_Name t) (ChannelName (confs w ! c)) False (host w)) = Some ch \<Longrightarrow>
   ensureDemoChannels_loop api c (t # rest) m w =
     ensureDemoChannels_loop api c rest m
       (map_assign m (team_Id t) (channel_Id ch)
          (snd (call (api_GetChannelByNameForTeamName api (team_Name t) (ChannelName (confs w ! c)) False) w)))"
  by (simp add: case_prod_unfold)

lemma loop_created:
  "fst (api_GetChannelByNameForTeamName api (team_Name t) (ChannelName (confs w ! c)) False (host w)) = None \<Longrightarrow>
   w1 = snd (call (api_GetChannelByNameForTeamName api (team_Name t) (ChannelName (confs w ! c)) False) w) \<Longrightarrow>
   fst (api_CreateChannel api (demo_channel_request (team_Id t) (ChannelName (confs w ! c))) (host w1)) = Inr ch \<Longrightarrow>
   ensureDemoChannels_loop api c (t # rest) m w =
     ensureDemoChannels_loop api c rest m
       (map_assign m (team_Id t) (channel_Id ch)
          (snd (call (api_CreateChannel api (demo_channel_request (team_Id t) (ChannelName (confs w ! c)))) w1)))"
  by (simp add: case_prod_unfold demo_channel_request_def)

lemma loop_failed:
  "fst (api_GetChannelByNameForTeamName api (team_Name t) (ChannelName (confs w ! c)) False (host w)) = None \<Longrightarrow>
   w1 = snd (call (api_GetChannelByNameForTeamName api (team_Name t) (ChannelName (confs w ! c)) False) w) \<Longrightarrow>
   fst (api_CreateChannel api (demo_channel_request (team_Id t) (ChannelName (confs w ! c))) (host w1)) = Inl err \<Longrightarrow>
   fst (ensureDemoChannels_loop api c (t # rest) m w) = (None, Some (AppErr err))"
  by (simp add: case_prod_unfold demo_channel_request_def)

lemma map_assign_frame [simp]:
  "confs (map_assign m key val w) = confs w \<and>
   host (map_assign m key val w) = host w \<and>
   length (maps (map_assign m key val w)) = length (maps w)"
  by (simp add: map_assign_def)

lemma loop_values:
  "m < length (maps w) \<Longrightarrow>
   fst (ensureDemoChannels_loop api c ts m w) = (Some m, None) \<Longrightarrow>
   map_of (maps (snd (ensureDemoChannels_loop api c ts m w)) ! m) k = Some v \<Longrightarrow>
   map_of (maps w ! m) k = Some v \<or>
   (\<exists>t \<in> set ts. team_Id t = k \<and> ensured_by api (ChannelName (confs w ! c)) t v)"
proof (induction ts arbitrary: w)
  case Nil
  then show ?case by simp
next
  case (Cons t rest)
  let ?name = "ChannelName (confs w ! c)"
  let ?g = "api_GetChannelByNameForTeamName api (team_Name t) ?name False"
  let ?w1 = "snd (call ?g w)"
  have step: "map_of (maps w ! m) k = Some v \<or>
              (\<exists>t' \<in> set (t # rest). team_Id t' = k \<and> ensured_by api ?name t' v)"
    if run: "ensureDemoChannels_loop api c (t # rest) m w =
               ensureDemoChannels_loop api c rest m (map_assign m (team_Id t) cid w2)"
      and same: "confs w2 = confs w" "maps w2 = maps w"
      and ens: "ensured_by api ?name t cid" for cid w2
  proof -
    let ?w3 = "map_assign m (team_Id t) cid w2"
    have len: "m < length (maps ?w3)"
      using Cons.prems(1) same by simp
    have ok: "fst (ensureDemoChannels_loop api c rest m ?w3) = (Some m, None)"
      using Cons.prems(2) run by simp
    have fin: "map_of (maps (snd (ensureDemoChannels_loop api c rest m ?w3)) ! m) k = Some v"
      using Cons.prems(3) run by simp
    have nm: "ChannelName (confs ?w3 ! c) = ?name"
      using same by simp
    from Cons.IH [OF len ok fin]
    have "map_of (maps ?w3 ! m) k = Some v \<or>
          (\<exists>t' \<in> set rest. team_Id t' = k \<and> ensured_by api ?name t' v)"
      unfolding nm .
    moreover have "map_of (maps ?w3 ! m) = (map_of (maps w ! m))(team_Id t \<mapsto> cid)"
      using Cons.prems(1) same by (simp add: map_assign_def update_conv')
    ultimately show ?thesis
      using ens by (auto split: if_splits)
  qed
  show ?case
  proof (cases "fst (?g (host w))")
    case (Some ch)
    have "ensured_by api ?name t (channel_Id ch)"
      using Some by (auto simp: ensured_by_def)
    from step [OF loop_found [OF Some] _ _ this] show ?thesis by simp
  next
    case None
    let ?cr = "api_CreateChannel api (demo_channel_request (team_Id t) ?name)"
    show ?thesis
    proof (cases "fst (?cr (host ?w1))")
      case (Inl err)
      from loop_failed [OF None refl Inl] Cons.prems(2) show ?thesis by simp
    next
      case (Inr ch)
      have "ensured_by api ?name t (channel_Id ch)"
        using None Inr by (auto simp: ensured_by_def)
      from step [OF loop_created [OF None refl Inr] _ _ this] show ?thesis by simp
    qed
  qed
qed

lemma loop_fails_with:
  assumes nf: "\<And>name h. fst (api_GetChannelByNameForTeamName api (team_Name t) name False h) = None"
    and cf: "\<And>ch h. channel_TeamId ch = team_Id t \<Longrightarrow> fst (api_CreateChannel api ch h) = Inl err"
    and others: "\<And>ch h. channel_TeamId ch \<noteq> team_Id t \<Longrightarrow> \<exists>ch'. fst (api_CreateChannel api ch h) = Inr ch'"
  shows "t \<in> set ts \<Longrightarrow> fst (ensureDemoChannels_loop api c ts m w) = (None, Some (AppErr err))"
proof (induction ts arbitrary: w)
  case Nil
  then show ?case by simp
next
  case (Cons t' rest)
  let ?name = "ChannelName (confs w ! c)"
  let ?g = "api_GetChannelByNameForTeamName api (team_Name t') ?name False"
  let ?w1 = "snd (call ?g w)"
  let ?req = "demo_channel_request (team_Id t') ?name"
  show ?case
  proof (cases "fst (?g (host w))")
    case (Some ch)
    with nf have "t' \<noteq> t" by auto
    with Cons.prems have "t \<in> set rest" by simp
    from Cons.IH [OF this] loop_found [OF Some] show ?thesis by simp
  next
    case None
    show ?thesis
    proof (cases "team_Id t' = team_Id t")
      case True
      then have "fst (api_CreateChannel api ?req (host ?w1)) = Inl err"
        by (intro cf) (simp add: demo_channel_request_def)
      from loop_failed [OF None refl this] show ?thesis .
    next
      case False
      then have "channel_TeamId ?req \<noteq> team_Id t"
        by (simp add: demo_channel_request_def)
      from others [OF this, of "host ?w1"] obtain ch
        where ch: "fst (api_CreateChannel api ?req (host ?w1)) = Inr ch" by auto
      from False Cons.prems have "t \<in> set rest" by auto
      from Cons.IH [OF this] loop_created [OF None refl ch] show ?thesis by simp
    qed
  qed
qed

lemma loop_error_from_host:
  "fst (ensureDemoChannels_loop api c ts m w) = (None, Some e) \<Longrightarrow>
   \<exists>t err h. t \<in> set ts \<and> e = AppErr err \<and>
     fst (api_CreateChannel api (demo_channel_request (team_Id t) (ChannelName (confs w ! c))) h) = Inl err"
proof (induction ts arbitrary: w)
  case Nil
  then show ?case by simp
next
  case (Cons t rest)
  let ?name = "ChannelName (confs w ! c)"
  let ?g = "api_GetChannelByNameForTeamName api (team_Name t) ?name False"
  let ?w1 = "snd (call ?g w)"
  let ?req = "demo_channel_request (team_Id t) ?name"
  have later: ?case
    if run: "ensureDemoChannels_loop api c (t # rest) m w =
               ensureDemoChannels_loop api c rest m (map_assign m (team_Id t) cid w2)"
      and same: "confs w2 = confs w" for cid w2
  proof -
    have "fst (ensureDemoChannels_loop api c rest m (map_assign m (team_Id t) cid w2)) = (None, Some e)"
      using Cons.prems run by simp
    from Cons.IH [OF this] same show ?thesis by auto
  qed
  show ?case
  proof (cases "fst (?g (host w))")
    case (Some ch)
    from later [OF loop_found [OF Some]] show ?thesis by simp
  next
    case None
    show ?thesis
    proof (cases "fst (api_CreateChannel api ?req (host ?w1))")
      case (Inl err)
      from loop_failed [OF None refl Inl] Cons.prems have "e = AppErr err" by simp
      with Inl show ?thesis by auto
    next
      case (Inr ch)
      from later [OF loop_created [OF None refl Inr]] show ?thesis by simp
    qed
  qed
qed

lemmas reload_eval =
  OnConfigurationChange_def OnConfigurationChange_prepare_def OnConfigurationChange_publish_def
  getConfiguration_def Clone_eq new_configuration_def make_map_def map_assign_def
  map_entries_def conf_update_def load_public_def call_def log_def CreatePost_def
  ensureDemoUser_def ensureDemoUser_found_def ensureDemoChannels_def
  diffConfiguration_def configurationDiff_def setConfiguration_def
  example_api_def no_teams_api_def example_world_def fresh_world_def example_user_def
  zero_configuration_def zero_post_def

section \<open>What the channel step returns\<close>

lemma ensureDemoChannels_run:
  "fst (api_GetTeams api (host w)) = Inr ts \<Longrightarrow>
   ensureDemoChannels api c w =
     ensureDemoChannels_loop api c ts (length (maps w))
       ((snd (call (api_GetTeams api) w))\<lparr>maps := maps w @ [[]]\<rparr>)"
  by (simp add: ensureDemoChannels_def make_map_def case_prod_unfold)

lemma ensureDemoChannels_teams_error:
  "fst (api_GetTeams api (host w)) = Inl err \<Longrightarrow>
   fst (ensureDemoChannels api c w) = (None, Some (AppErr err))"
  by (simp add: ensureDemoChannels_def case_prod_unfold)

lemma ensureDemoChannels_fails_with:
  assumes teams: "fst (api_GetTeams api (host w)) = Inr ts" and t: "t \<in> set ts"
    and nf: "\<And>name h. fst (api_GetChannelByNameForTeamName api (team_Name t) name False h) = None"
    and cf: "\<And>ch h. channel_TeamId ch = team_Id t \<Longrightarrow> fst (api_CreateChannel api ch h) = Inl err"
    and others: "\<And>ch h. channel_TeamId ch \<noteq> team_Id t \<Longrightarrow> \<exists>ch'. fst (api_CreateChannel api ch h) = Inr ch'"
  shows "fst (ensureDemoChannels api c w) = (None, Some (AppErr err))"
  unfolding ensureDemoChannels_run [OF teams]
  by (rule loop_fails_with [OF nf cf others t])

lemma ensureDemoChannels_error_from_host:
  assumes e: "snd (fst (ensureDemoChannels api c w)) = Some e"
  shows "\<exists>err. e = AppErr err \<and>
           (fst (api_GetTeams api (host w)) = Inl err \<or>
            (\<exists>ts t h. fst (api_GetTeams api (host w)) = Inr ts \<and> t \<in> set ts \<and>
               fst (api_CreateChannel api
                      (demo_channel_request (team_Id t) (ChannelName (confs w ! c))) h) = Inl err))"
proof (cases "fst (api_GetTeams api (host w))")
  case (Inl err)
  with e ensureDemoChannels_teams_error [OF Inl, of c] show ?thesis by simp
next
  case (Inr ts)
  let ?w2 = "(snd (call (api_GetTeams api) w))\<lparr>maps := maps w @ [[]]\<rparr>"
  let ?l = "ensureDemoChannels_loop api c ts (length (maps w)) ?w2"
  from e have "snd (fst ?l) = Some e"
    unfolding ensureDemoChannels_run [OF Inr] .
  with ensureDemoChannels_loop_result [of api c ts "length (maps w)" ?w2]
  have "fst ?l = (None, Some e)" by auto
  from loop_error_from_host [OF this] Inr show ?thesis by auto
qed

lemma ensureDemoChannels_success:
  assumes ok: "snd (fst (ensureDemoChannels api c w)) = None"
  shows "\<exists>ts. fst (api_GetTeams api (host w)) = Inr ts \<and>
           fst (fst (ensureDemoChannels api c w)) = Some (length (maps w)) \<and>
           length (maps w) < length (maps (snd (ensureDemoChannels api c w))) \<and>
           fst ` set (maps (snd (ensureDemoChannels api c w)) ! length (maps w)) = team_Id ` set ts \<and>
           (\<forall>k v. map_of (maps (snd (ensureDemoChannels api c w)) ! length (maps w)) k = Some v \<longrightarrow>
              (\<exists>t \<in> set ts. team_Id t = k \<and> ensured_by api (ChannelName (confs w ! c)) t v))"
proof (cases "fst (api_GetTeams api (host w))")
  case (Inl err)
  with ok ensureDemoChannels_teams_error [OF Inl, of c] show ?thesis by simp
next
  case (Inr ts)
  let ?a = "length (maps w)"
  let ?w2 = "(snd (call (api_GetTeams api) w))\<lparr>maps := maps w @ [[]]\<rparr>"
  let ?l = "ensureDemoChannels_loop api c ts ?a ?w2"
  note run = ensureDemoChannels_run [OF Inr, of c]
  from ok have "snd (fst ?l) = None" unfolding run .
  with ensureDemoChannels_loop_result [of api c ts ?a ?w2]
  have s: "fst ?l = (Some ?a, None)" by auto
  have len: "?a < length (maps ?w2)" by simp
  have empty: "maps ?w2 ! ?a = []" by simp
  have nm: "ChannelName (confs ?w2 ! c) = ChannelName (confs w ! c)" by simp
  from ensureDemoChannels_loop_keys [OF len, of api c ts] s empty
  have keys: "fst ` set (maps (snd ?l) ! ?a) = team_Id ` set ts" by simp
  have vals: "\<exists>t \<in> set ts. team_Id t = k \<and> ensured_by api (ChannelName (confs w ! c)) t v"
    if "map_of (maps (snd ?l) ! ?a) k = Some v" for k v
    using loop_values [OF len s that] empty nm by simp
  have "?a < length (maps (snd ?l))" by simp
  with s keys vals Inr show ?thesis
    unfolding run by auto
qed

lemma ensureDemoUser_error_from_host:
  "fst (ensureDemoUser api c w) = Inl e \<Longrightarrow> \<exists>err. e = AppErr err"
  by (auto simp: ensureDemoUser_def ensureDemoUser_found_def case_prod_unfold
      split: sum.splits if_splits)

lemma conf_update_frame:
  "logs (conf_update c f w) = logs w \<and> maps (conf_update c f w) = maps w \<and>
   configuration_ptr (conf_update c f w) = configuration_ptr w \<and>
   host (conf_update c f w) = host w \<and>
   length (confs (conf_update c f w)) = length (confs w)"
  by (simp add: conf_update_def)

lemma publish_failure:
  assumes "ensureDemoChannels api c w = ((m, Some e), w1)"
  shows "OnConfigurationChange_publish api c w =
           (Returned (Some (Wrap e ''failed to ensure demo channels'')),
            conf_update c (\<lambda>conf. conf\<lparr>demoChannelIDs := m\<rparr>) w1)"
  using assms by (simp add: OnConfigurationChange_publish_def)

lemma publish_success:
  assumes ch: "ensureDemoChannels api c w = ((m, None), w1)"
    and fresh: "configuration_ptr w \<noteq> Some c"
  shows "OnConfigurationChange_publish api c w =
           (Returned None,
            (diffConfiguration api c (conf_update c (\<lambda>conf. conf\<lparr>demoChannelIDs := m\<rparr>) w1))
              \<lparr>configuration_ptr := Some c\<rparr>)"
proof -
  have "configuration_ptr w1 = configuration_ptr w"
    using ensureDemoChannels_frame [of api c w] ch by simp
  with fresh show ?thesis
    using ch by (simp add: OnConfigurationChange_publish_def setConfiguration_def Let_def
                   conf_update_frame)
qed

lemma publish_success_map:
  assumes ch: "ensureDemoChannels api c w = ((m, None), w1)"
    and fresh: "configuration_ptr w \<noteq> Some c" and c: "c < length (confs w)"
  shows "demoChannelIDs (confs (snd (OnConfigurationChange_publish api c w)) ! c) = m \<and>
         maps (snd (OnConfigurationChange_publish api c w)) = maps w1 \<and>
         configuration_ptr (snd (OnConfigurationChange_publish api c w)) = Some c"
proof -
  let ?w2 = "conf_update c (\<lambda>conf. conf\<lparr>demoChannelIDs := m\<rparr>) w1"
  let ?w3 = "diffConfiguration api c ?w2"
  have c1: "c < length (confs w1)"
    using ensureDemoChannels_frame [of api c w] ch c by simp
  then have c2: "c < length (confs ?w2)" by (simp add: conf_update_frame)
  have "take (length (confs ?w2)) (confs ?w3) = confs ?w2"
    using diffConfiguration_frame [of api c ?w2] by blast
  then have "confs ?w3 ! c = confs ?w2 ! c"
    using c2 by (metis nth_take)
  then have "demoChannelIDs (confs ?w3 ! c) = m"
    using c1 by (simp add: conf_update_def)
  then show ?thesis
    unfolding publish_success [OF ch fresh] by (simp add: conf_update_frame)
qed

lemma ensureDemoUser_found_error_from_host:
  "fst (ensureDemoUser_found api c usr w) = Inl e \<Longrightarrow>
   \<exists>err h. e = AppErr err \<and>
     ((\<exists>u. fst (api_UpdateUser api u h) = Inl err) \<or> fst (api_GetTeams api h) = Inl err)"
  by (auto simp: ensureDemoUser_found_def case_prod_unfold split: sum.splits if_splits)

lemma ensureDemoUser_error_host:
  "fst (ensureDemoUser api c w) = Inl e \<Longrightarrow>
   \<exists>err h. e = AppErr err \<and>
     ((\<exists>name. fst (api_GetUserByUsername api name h) = Inl err) \<or>
      (\<exists>u. fst (api_CreateUser api u h) = Inl err) \<or>
      (\<exists>u. fst (api_UpdateUser api u h) = Inl err) \<or>
      fst (api_GetTeams api h) = Inl err)"
proof -
  assume e: "fst (ensureDemoUser api c w) = Inl e"
  let ?g = "call (api_GetUserByUsername api (Username (confs w ! c))) w"
  show ?thesis
  proof (cases "fst ?g")
    case (Inr usr)
    with e have "fst (ensureDemoUser_found api c usr (snd ?g)) = Inl e"
      by (simp add: ensureDemoUser_def case_prod_unfold)
    from ensureDemoUser_found_error_from_host [OF this] show ?thesis by blast
  next
    case (Inl err)
    show ?thesis
    proof (cases "StatusCode err = 404")
      case False
      with e Inl have "e = AppErr err"
        by (simp add: ensureDemoUser_def case_prod_unfold)
      with Inl show ?thesis by auto
    next
      case True
      let ?w1 = "log LogInfo ''DemoUser doesn't exist. Trying to create it.'' (snd ?g)"
      let ?u = "\<lparr>user_Id = '''', user_Username = Username (confs (snd ?g) ! c),
                 user_Password = ''Password_123'',
                 user_Email = Username (confs (snd ?g) ! c) @ ''@example.com'',
                 user_Nickname = ''Demo Day'', user_FirstName = ''Demo'',
                 user_LastName = LastName (confs (snd ?g) ! c), user_Position = ''Bot''\<rparr>"
      let ?cr = "call (api_CreateUser api ?u) ?w1"
      show ?thesis
      proof (cases "fst ?cr")
        case (Inl err1)
        with e True \<open>fst ?g = Inl err\<close> have "e = AppErr err1"
          by (simp add: ensureDemoUser_def case_prod_unfold)
        with Inl show ?thesis by auto
      next
        case (Inr usr)
        with e True \<open>fst ?g = Inl err\<close>
        have "fst (ensureDemoUser_found api c usr (snd ?cr)) = Inl e"
          by (simp add: ensureDemoUser_def case_prod_unfold)
        from ensureDemoUser_found_error_from_host [OF this] show ?thesis by blast
      qed
    qed
  qed
qed

section \<open>Publishing and reading the configuration\<close>

text \<open>
  C2. Calling \<open>setConfiguration\<close> with the very pointer that is published panics, in
  every state of the plugin, and nothing is replaced: the state is as before the call.
\<close>

theorem setConfiguration_same_instance_panics:
  "configuration_ptr w = Some a \<Longrightarrow>
   setConfiguration (Some a) w =
     (Panicked ''setConfiguration called with the existing configuration'', w)"
  by (simp add: setConfiguration_def)

theorem setConfiguration_same_instance_panics_witness:
  "configuration_ptr example_world = Some 0 \<and>
   setConfiguration (Some 0) example_world =
     (Panicked ''setConfiguration called with the existing configuration'', example_world)"
  using setConfiguration_same_instance_panics [of example_world 0]
  by (simp add: example_world_def)

text \<open>
  C5. With no configuration published (the pointer is nil), \<open>getConfiguration\<close>
  returns the address of an allocated struct all of whose fields hold their zero values;
  it does not fail, and it publishes nothing.
\<close>

theorem getConfiguration_unpublished_zero:
  "configuration_ptr w = None \<Longrightarrow>
   (case getConfiguration w of
      (a, w') \<Rightarrow>
        a < length (confs w') \<and>
        confs w' ! a =
          \<lparr>Username = '''', ChannelName = '''', LastName = '''', TextStyle = '''',
           RandomSecret = '''', SecretMessage = '''', EnableMentionUser = False,
           MentionUser = '''', SecretNumber = 0, IntegrationRequestDelay = 0,
           disabled = False, demoUserID = '''', demoChannelIDs = None\<rparr> \<and>
        configuration_ptr w' = None)"
  by (simp add: getConfiguration_def new_configuration_def zero_configuration_def)

theorem getConfiguration_unpublished_zero_witness:
  "configuration_ptr (example_world\<lparr>configuration_ptr := None\<rparr>) = None \<and>
   fst (getConfiguration (example_world\<lparr>configuration_ptr := None\<rparr>)) = 1 \<and>
   Username (confs (snd (getConfiguration (example_world\<lparr>configuration_ptr := None\<rparr>))) ! 1) = ''''"
  using getConfiguration_unpublished_zero [of "example_world\<lparr>configuration_ptr := None\<rparr>"]
  by (simp add: example_world_def getConfiguration_def new_configuration_def
        zero_configuration_def)

text \<open>
  C3. \<open>Clone\<close> is a deep copy. The clone is a new struct that agrees with the original
  on every field but the map reference, and its map is a new object with the bindings of
  the original's map. Whatever is then done to the clone's map (binding new keys,
  rebinding, deleting), the original struct and the entries of its map stay as they were.
\<close>

theorem Clone_deep_copy:
  assumes ok: "heap_ok w" and c: "c < length (confs w)"
  shows "case Clone c w of
           (c', w') \<Rightarrow>
             c' \<noteq> c \<and> c' < length (confs w') \<and>
             (\<exists>m'. confs w' ! c' = (confs w ! c)\<lparr>demoChannelIDs := Some m'\<rparr> \<and>
                demoChannelIDs (confs w ! c) \<noteq> Some m' \<and>
                map_of (map_entries (Some m') w') =
                  map_of (map_entries (demoChannelIDs (confs w ! c)) w) \<and>
                (\<forall>ops. confs (apply_map_ops m' ops w') ! c = confs w ! c \<and>
                   map_entries (demoChannelIDs (confs w ! c)) (apply_map_ops m' ops w') =
                     map_entries (demoChannelIDs (confs w ! c)) w))"
proof -
  let ?r = "demoChannelIDs (confs w ! c)"
  let ?m' = "length (maps w)"
  let ?copy = "fold (\<lambda>(k, v). AList.update k v) (map_entries ?r w) []"
  let ?w' = "w\<lparr>maps := maps w @ [?copy],
               confs := confs w @ [(confs w ! c)\<lparr>demoChannelIDs := Some ?m'\<rparr>]\<rparr>"
  have valid: "\<And>m. ?r = Some m \<Longrightarrow> m < length (maps w)"
    using ok c by (auto simp: heap_ok_def list_all_length split: option.splits)
  have dist: "distinct (map fst (map_entries ?r w))"
  proof (cases ?r)
    case None
    then show ?thesis by (simp add: map_entries_def)
  next
    case (Some m)
    with valid have "m < length (maps w)" by simp
    with ok have "distinct (map fst (maps w ! m))"
      by (simp add: heap_ok_def list_all_length)
    with Some show ?thesis by (simp add: map_entries_def)
  qed
  have fresh: "?r \<noteq> Some ?m'"
    using valid by fastforce
  have copy: "map_of (map_entries (Some ?m') ?w') = map_of (map_entries ?r w)"
    using fold_update_lookup [OF dist, of "[]"] by (simp add: map_entries_def)
  have frame: "confs (apply_map_ops ?m' ops ?w') ! c = confs w ! c \<and>
               map_entries ?r (apply_map_ops ?m' ops ?w') = map_entries ?r w" for ops
  proof -
    note fr = apply_map_ops_frame [of ?m' ops ?w']
    have a: "confs (apply_map_ops ?m' ops ?w') ! c = confs w ! c"
      using fr c by (simp add: nth_append)
    have b: "map_entries ?r (apply_map_ops ?m' ops ?w') = map_entries ?r w"
    proof (cases ?r)
      case None
      then show ?thesis by (simp add: map_entries_def)
    next
      case (Some m)
      with valid have lt: "m < length (maps w)" by simp
      then have "m \<noteq> ?m'" by simp
      with fr have "maps (apply_map_ops ?m' ops ?w') ! m = maps ?w' ! m" by blast
      with lt Some show ?thesis by (simp add: map_entries_def nth_append)
    qed
    from a b show ?thesis ..
  qed
  have "Clone c w = (length (confs w), ?w')"
    by (rule Clone_eq)
  moreover have "length (confs w) \<noteq> c" using c by simp
  ultimately show ?thesis
    using fresh copy frame by auto
qed

theorem Clone_deep_copy_witness:
  "heap_ok example_world \<and> 0 < length (confs example_world) \<and>
   fst (Clone 0 example_world) = 1 \<and>
   map_entries (demoChannelIDs (confs example_world ! 0))
     (apply_map_ops 1 [Assign ''team1'' ''other'', Delete ''team1'', Assign ''team2'' ''chan2'']
        (snd (Clone 0 example_world))) = [(''team1'', ''chan1'')]"
proof -
  let ?ops = "[Assign ''team1'' ''other'', Delete ''team1'', Assign ''team2'' ''chan2'']"
  obtain c' w' where cl: "Clone 0 example_world = (c', w')"
    by (cases "Clone 0 example_world")
  have ok: "heap_ok example_world"
    by (simp add: heap_ok_def example_world_def zero_configuration_def)
  have c: "0 < length (confs example_world)"
    by (simp add: example_world_def)
  have c': "c' = 1"
    using cl by (simp add: Clone_eq example_world_def)
  have ref: "demoChannelIDs (confs w' ! c') = Some 1"
    using cl by (auto simp: Clone_eq example_world_def)
  have en: "map_entries (demoChannelIDs (confs example_world ! 0)) example_world
              = [(''team1'', ''chan1'')]"
    by (simp add: map_entries_def example_world_def)
  from Clone_deep_copy [OF ok c] cl obtain m' where
    same: "confs w' ! c' = (confs example_world ! 0)\<lparr>demoChannelIDs := Some m'\<rparr>" and
    frame: "\<forall>ops. map_entries (demoChannelIDs (confs example_world ! 0)) (apply_map_ops m' ops w') =
                  map_entries (demoChannelIDs (confs example_world ! 0)) example_world"
    by auto
  from same ref have "m' = 1" by simp
  with frame have "map_entries (demoChannelIDs (confs example_world ! 0)) (apply_map_ops 1 ?ops w')
                   = map_entries (demoChannelIDs (confs example_world ! 0)) example_world"
    by blast
  with en ok c c' cl show ?thesis by simp
qed

section \<open>Reload: failure and success\<close>

text \<open>
  C1. Reload is \<open>OnConfigurationChange\<close>. First, whenever it does not return nil, the
  published pointer is the one published before and the snapshot it names (the struct
  and the entries of its map) is unchanged: \<open>setConfiguration\<close> has replaced nothing.
  Second, every step that fails makes reload return that step's error, wrapped with the
  step's message: loading the settings, \<open>ensureDemoUser\<close> (whose error is one the host
  returned for a user or team call), \<open>EnsureBot\<close>, and \<open>ensureDemoChannels\<close> (whose
  error is one the host returned for \<open>GetTeams\<close> or \<open>CreateChannel\<close>); reload returns
  nil only when all of them succeed. Third, when the steps before the channels succeed
  and the host reports a team for which no channel is found and whose creation fails
  with an error, while creation for the other teams succeeds, reload returns exactly
  that error, wrapped as \<open>failed to ensure demo channels\<close>.
\<close>

theorem reload_failure_keeps_published:
  assumes ok: "heap_ok w"
  shows
    "(fst (OnConfigurationChange api w) \<noteq> Returned None \<longrightarrow>
        configuration_ptr (snd (OnConfigurationChange api w)) = configuration_ptr w \<and>
        published_snapshot (snd (OnConfigurationChange api w)) = published_snapshot w) \<and>
     (case getConfiguration (if client w then w else w\<lparr>client := True\<rparr>) of
        (cur, w1) \<Rightarrow>
     (case Clone cur w1 of
        (c, w2) \<Rightarrow>
     (case call (api_LoadPluginConfiguration api (confs w2 ! c)) w2 of
        (Inl e, w3) \<Rightarrow>
          fst (OnConfigurationChange api w) =
            Returned (Some (Wrap e ''failed to load plugin configuration''))
      | (Inr loaded, w3) \<Rightarrow>
     (case ensureDemoUser api c (conf_update c (load_public loaded) w3) of
        (Inl e, w4) \<Rightarrow>
          fst (OnConfigurationChange api w) =
            Returned (Some (Wrap e ''failed to ensure demo user'')) \<and>
          (\<exists>err h. e = AppErr err \<and>
             ((\<exists>name. fst (api_GetUserByUsername api name h) = Inl err) \<or>
              (\<exists>u. fst (api_CreateUser api u h) = Inl err) \<or>
              (\<exists>u. fst (api_UpdateUser api u h) = Inl err) \<or>
              fst (api_GetTeams api h) = Inl err))
      | (Inr uid, w4) \<Rightarrow>
     (case call (api_EnsureBot api
             \<lparr>bot_Username = ''demoplugin'',
              bot_DisplayName = ''Demo Plugin Bot'',
              bot_Description = ''A bot account created by the demo plugin.''\<rparr>)
            (conf_update c (\<lambda>conf. conf\<lparr>demoUserID := uid\<rparr>) w4) of
        (Inl e, w5) \<Rightarrow>
          fst (OnConfigurationChange api w) =
            Returned (Some (Wrap e ''failed to ensure demo bot''))
      | (Inr bid, w5) \<Rightarrow>
     (case ensureDemoChannels api c (w5\<lparr>botID := bid\<rparr>) of
        ((m, Some e), w6) \<Rightarrow>
          fst (OnConfigurationChange api w) =
            Returned (Some (Wrap e ''failed to ensure demo channels'')) \<and>
          (\<exists>err. e = AppErr err \<and>
             (fst (api_GetTeams api (host w5)) = Inl err \<or>
              (\<exists>ch h. fst (api_CreateChannel api ch h) = Inl err)))
      | ((m, None), w6) \<Rightarrow>
          fst (OnConfigurationChange api w) = Returned None)))))) \<and>
     (\<forall>c w1 ts t err.
        OnConfigurationChange_prepare api w = (Inr c, w1) \<and>
        fst (api_GetTeams api (host w1)) = Inr ts \<and> t \<in> set ts \<and>
        (\<forall>name h. fst (api_GetChannelByNameForTeamName api (team_Name t) name False h) = None) \<and>
        (\<forall>ch h. channel_TeamId ch = team_Id t \<longrightarrow> fst (api_CreateChannel api ch h) = Inl err) \<and>
        (\<forall>ch h. channel_TeamId ch \<noteq> team_Id t \<longrightarrow> (\<exists>ch'. fst (api_CreateChannel api ch h) = Inr ch'))
        \<longrightarrow> fst (OnConfigurationChange api w) =
              Returned (Some (Wrap (AppErr err) ''failed to ensure demo channels'')))"
proof (intro conjI)
  let ?n = "length (confs w)" and ?k = "length (maps w)"
  let ?r = "OnConfigurationChange api w"
  have kp: "keeps ?n ?k w (snd (OnConfigurationChange_prepare api w))"
    using prepare_frame [of w api] by blast
  show "fst ?r \<noteq> Returned None \<longrightarrow>
        configuration_ptr (snd ?r) = configuration_ptr w \<and>
        published_snapshot (snd ?r) = published_snapshot w"
  proof
    assume err: "fst ?r \<noteq> Returned None"
    have k: "keeps ?n ?k w (snd ?r)"
    proof (cases "fst (OnConfigurationChange_prepare api w)")
      case (Inl e)
      then show ?thesis
        using kp by (simp add: OnConfigurationChange_def case_prod_unfold)
    next
      case (Inr c)
      let ?w1 = "snd (OnConfigurationChange_prepare api w)"
      have run: "?r = OnConfigurationChange_publish api c ?w1"
        using Inr by (simp add: OnConfigurationChange_def case_prod_unfold)
      have c: "?n \<le> c"
        using prepare_frame [of w api] Inr by blast
      have l: "?n \<le> length (confs ?w1)" "?k \<le> length (maps ?w1)"
        using kp by (simp_all add: keeps_def)
      have "keeps ?n ?k ?w1 (snd (OnConfigurationChange_publish api c ?w1))"
        using err run by (intro publish_error_frame [OF _ c l]) simp
      with kp run show ?thesis
        by (metis keeps_trans)
    qed
    show "configuration_ptr (snd ?r) = configuration_ptr w \<and>
          published_snapshot (snd ?r) = published_snapshot w"
      using k keeps_snapshot [OF ok k] by (simp add: keeps_def)
  qed
next
  let ?r = "OnConfigurationChange api w"
  let ?w0 = "if client w then w else w\<lparr>client := True\<rparr>"
  let ?bot = "\<lparr>bot_Username = ''demoplugin'', bot_DisplayName = ''Demo Plugin Bot'',
               bot_Description = ''A bot account created by the demo plugin.''\<rparr>"
  obtain cur w1 where g: "getConfiguration ?w0 = (cur, w1)" by (metis surj_pair)
  obtain c w2 where cl: "Clone cur w1 = (c, w2)" by (metis surj_pair)
  obtain r3 w3 where ld: "call (api_LoadPluginConfiguration api (confs w2 ! c)) w2 = (r3, w3)"
    by (metis surj_pair)
  have steps: "case r3 of
        Inl e \<Rightarrow> fst ?r = Returned (Some (Wrap e ''failed to load plugin configuration''))
      | Inr loaded \<Rightarrow>
     (case ensureDemoUser api c (conf_update c (load_public loaded) w3) of
        (Inl e, w4) \<Rightarrow>
          fst ?r = Returned (Some (Wrap e ''failed to ensure demo user'')) \<and>
          (\<exists>err h. e = AppErr err \<and>
             ((\<exists>name. fst (api_GetUserByUsername api name h) = Inl err) \<or>
              (\<exists>u. fst (api_CreateUser api u h) = Inl err) \<or>
              (\<exists>u. fst (api_UpdateUser api u h) = Inl err) \<or>
              fst (api_GetTeams api h) = Inl err))
      | (Inr uid, w4) \<Rightarrow>
     (case call (api_EnsureBot api ?bot) (conf_update c (\<lambda>conf. conf\<lparr>demoUserID := uid\<rparr>) w4) of
        (Inl e, w5) \<Rightarrow> fst ?r = Returned (Some (Wrap e ''failed to ensure demo bot''))
      | (Inr bid, w5) \<Rightarrow>
     (case ensureDemoChannels api c (w5\<lparr>botID := bid\<rparr>) of
        ((m, Some e), w6) \<Rightarrow>
          fst ?r = Returned (Some (Wrap e ''failed to ensure demo channels'')) \<and>
          (\<exists>err. e = AppErr err \<and>
             (fst (api_GetTeams api (host w5)) = Inl err \<or>
              (\<exists>ch h. fst (api_CreateChannel api ch h) = Inl err)))
      | ((m, None), w6) \<Rightarrow> fst ?r = Returned None)))"
  proof (cases r3)
    case (Inl e)
    then show ?thesis
      using g cl ld
      by (simp add: OnConfigurationChange_def OnConfigurationChange_prepare_def)
  next
    case loaded: (Inr loaded)
    obtain r4 w4 where us: "ensureDemoUser api c (conf_update c (load_public loaded) w3) = (r4, w4)"
      by (metis surj_pair)
    show ?thesis
    proof (cases r4)
      case (Inl e)
      have "fst (ensureDemoUser api c (conf_update c (load_public loaded) w3)) = Inl e"
        using us Inl by simp
      from ensureDemoUser_error_host [OF this] show ?thesis
        using g cl ld loaded us Inl
        by (simp add: OnConfigurationChange_def OnConfigurationChange_prepare_def)
    next
      case uid: (Inr uid)
      obtain r5 w5 where bt: "call (api_EnsureBot api ?bot)
            (conf_update c (\<lambda>conf. conf\<lparr>demoUserID := uid\<rparr>) w4) = (r5, w5)"
        by (metis surj_pair)
      show ?thesis
      proof (cases r5)
        case (Inl e)
        then show ?thesis
          using g cl ld loaded us uid bt
          by (simp add: OnConfigurationChange_def OnConfigurationChange_prepare_def)
      next
        case bid: (Inr bid)
        let ?w5 = "w5\<lparr>botID := bid\<rparr>"
        have prep: "OnConfigurationChange_prepare api w = (Inr c, ?w5)"
          using g cl ld loaded us uid bt bid
          by (simp add: OnConfigurationChange_prepare_def)
        have run: "?r = OnConfigurationChange_publish api c ?w5"
          using prep by (simp add: OnConfigurationChange_def)
        obtain m err w6 where ch: "ensureDemoChannels api c ?w5 = ((m, err), w6)"
          by (metis surj_pair)
        have res: "case err of
            Some e \<Rightarrow> fst ?r = Returned (Some (Wrap e ''failed to ensure demo channels'')) \<and>
              (\<exists>err. e = AppErr err \<and>
                 (fst (api_GetTeams api (host w5)) = Inl err \<or>
                  (\<exists>ch h. fst (api_CreateChannel api ch h) = Inl err)))
          | None \<Rightarrow> fst ?r = Returned None"
        proof (cases err)
          case (Some e)
          have "snd (fst (ensureDemoChannels api c ?w5)) = Some e"
            using ch Some by simp
          from ensureDemoChannels_error_from_host [OF this]
          have "\<exists>err. e = AppErr err \<and>
                 (fst (api_GetTeams api (host w5)) = Inl err \<or>
                  (\<exists>ch h. fst (api_CreateChannel api ch h) = Inl err))"
            by auto
          then show ?thesis
            using Some ch run publish_failure [of api c ?w5 m e w6] by simp
        next
          case None
          from prepare_frame [of w api] prep
          have kp: "keeps (length (confs w)) (length (maps w)) w ?w5"
            and c: "length (confs w) \<le> c"
            by auto
          have "configuration_ptr ?w5 = configuration_ptr w"
            using kp by (simp add: keeps_def)
          then have fresh: "configuration_ptr ?w5 \<noteq> Some c"
            using ok c by (auto simp: heap_ok_def split: option.splits)
          show ?thesis
            using None ch run publish_success [of api c ?w5 m w6, OF _ fresh] by simp
        qed
        show ?thesis
          using loaded us uid bt bid ch res by (cases err) simp_all
      qed
    qed
  qed
  show "case getConfiguration ?w0 of
        (cur, w1) \<Rightarrow>
     (case Clone cur w1 of
        (c, w2) \<Rightarrow>
     (case call (api_LoadPluginConfiguration api (confs w2 ! c)) w2 of
        (Inl e, w3) \<Rightarrow>
          fst (OnConfigurationChange api w) =
            Returned (Some (Wrap e ''failed to load plugin configuration''))
      | (Inr loaded, w3) \<Rightarrow>
     (case ensureDemoUser api c (conf_update c (load_public loaded) w3) of
        (Inl e, w4) \<Rightarrow>
          fst (OnConfigurationChange api w) =
            Returned (Some (Wrap e ''failed to ensure demo user'')) \<and>
          (\<exists>err h. e = AppErr err \<and>
             ((\<exists>name. fst (api_GetUserByUsername api name h) = Inl err) \<or>
              (\<exists>u. fst (api_CreateUser api u h) = Inl err) \<or>
              (\<exists>u. fst (api_UpdateUser api u h) = Inl err) \<or>
              fst (api_GetTeams api h) = Inl err))
      | (Inr uid, w4) \<Rightarrow>
     (case call (api_EnsureBot api ?bot)
            (conf_update c (\<lambda>conf. conf\<lparr>demoUserID := uid\<rparr>) w4) of
        (Inl e, w5) \<Rightarrow>
          fst (OnConfigurationChange api w) =
            Returned (Some (Wrap e ''failed to ensure demo bot''))
      | (Inr bid, w5) \<Rightarrow>
     (case ensureDemoChannels api c (w5\<lparr>botID := bid\<rparr>) of
        ((m, Some e), w6) \<Rightarrow>
          fst (OnConfigurationChange api w) =
            Returned (Some (Wrap e ''failed to ensure demo channels'')) \<and>
          (\<exists>err. e = AppErr err \<and>
             (fst (api_GetTeams api (host w5)) = Inl err \<or>
              (\<exists>ch h. fst (api_CreateChannel api ch h) = Inl err)))
      | ((m, None), w6) \<Rightarrow>
          fst (OnConfigurationChange api w) = Returned None)))))"
    using steps by (simp only: g cl ld prod.case)
next
  show "\<forall>c w1 ts t err.
        OnConfigurationChange_prepare api w = (Inr c, w1) \<and>
        fst (api_GetTeams api (host w1)) = Inr ts \<and> t \<in> set ts \<and>
        (\<forall>name h. fst (api_GetChannelByNameForTeamName api (team_Name t) name False h) = None) \<and>
        (\<forall>ch h. channel_TeamId ch = team_Id t \<longrightarrow> fst (api_CreateChannel api ch h) = Inl err) \<and>
        (\<forall>ch h. channel_TeamId ch \<noteq> team_Id t \<longrightarrow> (\<exists>ch'. fst (api_CreateChannel api ch h) = Inr ch'))
        \<longrightarrow> fst (OnConfigurationChange api w) =
              Returned (Some (Wrap (AppErr err) ''failed to ensure demo channels''))"
  proof (intro allI impI)
    fix c w1 ts t err
    assume a: "OnConfigurationChange_prepare api w = (Inr c, w1) \<and>
        fst (api_GetTeams api (host w1)) = Inr ts \<and> t \<in> set ts \<and>
        (\<forall>name h. fst (api_GetChannelByNameForTeamName api (team_Name t) name False h) = None) \<and>
        (\<forall>ch h. channel_TeamId ch = team_Id t \<longrightarrow> fst (api_CreateChannel api ch h) = Inl err) \<and>
        (\<forall>ch h. channel_TeamId ch \<noteq> team_Id t \<longrightarrow> (\<exists>ch'. fst (api_CreateChannel api ch h) = Inr ch'))"
    then have "fst (ensureDemoChannels api c w1) = (None, Some (AppErr err))"
      by (intro ensureDemoChannels_fails_with [of api w1 ts t]) auto
    then have "snd (fst (ensureDemoChannels api c w1)) = Some (AppErr err)" by simp
    from publish_channels_error [OF this] a
    show "fst (OnConfigurationChange api w) =
              Returned (Some (Wrap (AppErr err) ''failed to ensure demo channels''))"
      by (simp add: OnConfigurationChange_def)
  qed
qed

theorem reload_failure_keeps_published_witness:
  "heap_ok example_world \<and>
   fst (OnConfigurationChange_prepare example_api example_world) = Inr 1 \<and>
   fst (api_GetTeams example_api
          (host (snd (OnConfigurationChange_prepare example_api example_world)))) =
     Inr [\<lparr>team_Id = ''team1'', team_Name = ''one''\<rparr>, \<lparr>team_Id = ''team2'', team_Name = ''two''\<rparr>] \<and>
   (\<forall>name h. fst (api_GetChannelByNameForTeamName example_api ''two'' name False h) = None) \<and>
   (\<forall>ch h. fst (api_CreateChannel example_api (ch\<lparr>channel_TeamId := ''team2''\<rparr>) h) =
              Inl \<lparr>StatusCode = 500, err_Message = ''cannot create channel''\<rparr>) \<and>
   fst (OnConfigurationChange example_api example_world) =
     Returned (Some (Wrap (AppErr \<lparr>StatusCode = 500, err_Message = ''cannot create channel''\<rparr>)
                       ''failed to ensure demo channels'')) \<and>
   configuration_ptr (snd (OnConfigurationChange example_api example_world)) = Some 0 \<and>
   published_snapshot (snd (OnConfigurationChange example_api example_world)) =
     published_snapshot example_world \<and>
   fst (OnConfigurationChange user_failing_api example_world) =
     Returned (Some (Wrap (AppErr \<lparr>StatusCode = 500, err_Message = ''cannot read user''\<rparr>)
                       ''failed to ensure demo user'')) \<and>
   published_snapshot (snd (OnConfigurationChange user_failing_api example_world)) =
     published_snapshot example_world"
proof -
  let ?t2 = "\<lparr>team_Id = ''team2'', team_Name = ''two''\<rparr>"
  let ?ts = "[\<lparr>team_Id = ''team1'', team_Name = ''one''\<rparr>, ?t2]"
  let ?err = "\<lparr>StatusCode = 500, err_Message = ''cannot create channel''\<rparr>"
  have ok: "heap_ok example_world"
    by (simp add: heap_ok_def example_world_def zero_configuration_def)
  have prep1: "fst (OnConfigurationChange_prepare example_api example_world) = Inr 1"
    by (simp add: reload_eval)
  then have prep: "OnConfigurationChange_prepare example_api example_world =
                (Inr 1, snd (OnConfigurationChange_prepare example_api example_world))"
    by (simp add: prod_eq_iff)
  have teams: "fst (api_GetTeams example_api
          (host (snd (OnConfigurationChange_prepare example_api example_world)))) = Inr ?ts"
    by (simp add: example_api_def)
  have nf: "\<forall>name h. fst (api_GetChannelByNameForTeamName example_api (team_Name ?t2) name False h) = None"
    by (simp add: example_api_def)
  have cf: "\<forall>ch h. channel_TeamId ch = team_Id ?t2 \<longrightarrow> fst (api_CreateChannel example_api ch h) = Inl ?err"
    by (simp add: example_api_def)
  have others: "\<forall>ch h. channel_TeamId ch \<noteq> team_Id ?t2 \<longrightarrow> (\<exists>ch'. fst (api_CreateChannel example_api ch h) = Inr ch')"
    by (simp add: example_api_def)
  have ptr: "configuration_ptr example_world = Some 0"
    by (simp add: example_world_def)
  note rl = reload_failure_keeps_published [OF ok, of example_api]
  from rl prep teams nf cf others
  have res: "fst (OnConfigurationChange example_api example_world) =
             Returned (Some (Wrap (AppErr ?err) ''failed to ensure demo channels''))"
    by (elim conjE allE [of _ 1] allE [of _ "snd (OnConfigurationChange_prepare example_api example_world)"]
          allE [of _ ?ts] allE [of _ ?t2] allE [of _ ?err]) simp
  from rl res ptr
  have kept: "configuration_ptr (snd (OnConfigurationChange example_api example_world)) = Some 0 \<and>
        published_snapshot (snd (OnConfigurationChange example_api example_world)) =
          published_snapshot example_world"
    by simp
  have ures: "fst (OnConfigurationChange user_failing_api example_world) =
     Returned (Some (Wrap (AppErr \<lparr>StatusCode = 500, err_Message = ''cannot read user''\<rparr>)
                       ''failed to ensure demo user''))"
    by (simp add: reload_eval user_failing_api_def)
  from reload_failure_keeps_published [OF ok, of user_failing_api] ures
  have ukept: "published_snapshot (snd (OnConfigurationChange user_failing_api example_world)) =
          published_snapshot example_world"
    by simp
  have cf': "\<forall>ch h. fst (api_CreateChannel example_api (ch\<lparr>channel_TeamId := ''team2''\<rparr>) h) = Inl ?err"
    by (simp add: example_api_def)
  from ok prep1 teams nf cf' res kept ures ukept show ?thesis by simp
qed

text \<open>
  C7. When the host reports no teams and the steps before (settings, demo user, bot)
  succeed, reload returns nil and publishes the clone; the map of the published
  configuration is a map object with no entry.
\<close>

theorem reload_no_teams_publishes_empty:
  assumes ok: "heap_ok w"
    and noteams: "\<And>h. fst (api_GetTeams api h) = Inr []"
    and prep: "OnConfigurationChange_prepare api w = (Inr c, w1)"
  shows "fst (OnConfigurationChange api w) = Returned None \<and>
         configuration_ptr (snd (OnConfigurationChange api w)) = Some c \<and>
         (\<exists>m. demoChannelIDs (confs (snd (OnConfigurationChange api w)) ! c) = Some m \<and>
              m < length (maps (snd (OnConfigurationChange api w))) \<and>
              maps (snd (OnConfigurationChange api w)) ! m = [])"
proof -
  let ?m = "length (maps w1)"
  let ?w1b = "(snd (call (api_GetTeams api) w1))\<lparr>maps := maps w1 @ [[]]\<rparr>"
  let ?w2 = "conf_update c (\<lambda>conf. conf\<lparr>demoChannelIDs := Some ?m\<rparr>) ?w1b"
  let ?w3 = "diffConfiguration api c ?w2"
  from prepare_frame [of w api] prep
  have kp: "keeps (length (confs w)) (length (maps w)) w w1"
    and c: "length (confs w) \<le> c" "c < length (confs w1)"
    by auto
  have ch: "ensureDemoChannels api c w1 = ((Some ?m, None), ?w1b)"
    using noteams [of "host w1"]
    by (simp add: ensureDemoChannels_def make_map_def case_prod_unfold prod_eq_iff)
  have ptr: "configuration_ptr ?w3 = configuration_ptr w"
    using kp by (simp add: conf_update_def keeps_def)
  have fresh: "configuration_ptr ?w3 \<noteq> Some c"
    using ok c ptr by (auto simp: heap_ok_def split: option.splits)
  have run: "OnConfigurationChange api w = (Returned None, ?w3\<lparr>configuration_ptr := Some c\<rparr>)"
    using prep ch fresh
    by (simp add: OnConfigurationChange_def OnConfigurationChange_publish_def
          setConfiguration_def)
  have c2: "c < length (confs ?w2)"
    using c by (simp add: conf_update_def)
  have "take (length (confs ?w2)) (confs ?w3) = confs ?w2"
    by simp
  then have "confs ?w3 ! c = confs ?w2 ! c"
    using c2 by (metis nth_take)
  then have ref: "demoChannelIDs (confs ?w3 ! c) = Some ?m"
    using c by (simp add: conf_update_def)
  have mp: "maps ?w3 = maps w1 @ [[]]"
    by (simp add: conf_update_def)
  show ?thesis
    using run ref mp by simp
qed

theorem reload_no_teams_publishes_empty_witness:
  "heap_ok example_world \<and>
   (\<forall>h. fst (api_GetTeams no_teams_api h) = Inr []) \<and>
   fst (OnConfigurationChange_prepare no_teams_api example_world) = Inr 1 \<and>
   fst (OnConfigurationChange no_teams_api example_world) = Returned None \<and>
   published_snapshot (snd (OnConfigurationChange no_teams_api example_world)) =
     Some (zero_configuration\<lparr>Username := ''demo_user'', ChannelName := ''demo'',
             demoUserID := ''user1'', demoChannelIDs := Some 2\<rparr>, [])"
proof -
  have ok: "heap_ok example_world"
    by (simp add: heap_ok_def example_world_def zero_configuration_def)
  have nt: "\<And>h. fst (api_GetTeams no_teams_api h) = Inr []"
    by (simp add: no_teams_api_def)
  have prep1: "fst (OnConfigurationChange_prepare no_teams_api example_world) = Inr 1"
    by (simp add: reload_eval)
  then have prep: "OnConfigurationChange_prepare no_teams_api example_world =
                (Inr 1, snd (OnConfigurationChange_prepare no_teams_api example_world))"
    by (simp add: prod_eq_iff)
  have snap: "published_snapshot (snd (OnConfigurationChange no_teams_api example_world)) =
     Some (zero_configuration\<lparr>Username := ''demo_user'', ChannelName := ''demo'',
             demoUserID := ''user1'', demoChannelIDs := Some 2\<rparr>, [])"
    by (simp add: published_snapshot_def reload_eval)
  show ?thesis
    using reload_no_teams_publishes_empty [OF ok nt prep] ok nt prep1 snap by blast
qed

section \<open>The team to channel mapping\<close>

lemma map_assign_logs [simp]: "logs (map_assign m key val w) = logs w"
  by (simp add: map_assign_def)

lemma ensureDemoChannels_loop_logs [simp]:
  "logs (snd (ensureDemoChannels_loop api c ts m w)) = logs w"
  by (induction ts arbitrary: w)
     (simp_all add: case_prod_unfold split: option.splits sum.splits)

lemma ensureDemoChannels_logs [simp]:
  "logs (snd (ensureDemoChannels api c w)) = logs w"
  by (simp add: ensureDemoChannels_def make_map_def case_prod_unfold split: sum.splits)

lemma loop_refines:
  "m < length (maps w) \<Longrightarrow>
   fst (ensureDemoChannels_loop api c ts m w) =
     (case fst (ensured_channels api (ChannelName (confs w ! c)) ts (maps w ! m) (host w)) of
        Inl err \<Rightarrow> (None, Some (AppErr err))
      | Inr kvs \<Rightarrow> (Some m, None)) \<and>
   host (snd (ensureDemoChannels_loop api c ts m w)) =
     snd (ensured_channels api (ChannelName (confs w ! c)) ts (maps w ! m) (host w)) \<and>
   (\<forall>kvs. fst (ensured_channels api (ChannelName (confs w ! c)) ts (maps w ! m) (host w)) = Inr kvs \<longrightarrow>
      maps (snd (ensureDemoChannels_loop api c ts m w)) ! m = kvs)"
  by (induction ts arbitrary: w)
     (simp_all add: case_prod_unfold map_assign_def demo_channel_request_def call_def
        split: option.splits sum.splits)

lemma ensureDemoChannels_refines:
  assumes teams: "api_GetTeams api (host w) = (Inr ts, h)"
    and run: "ensured_channels api (ChannelName (confs w ! c)) ts [] h = (r, h')"
  shows "fst (ensureDemoChannels api c w) =
           (case r of Inl err \<Rightarrow> (None, Some (AppErr err))
                    | Inr kvs \<Rightarrow> (Some (length (maps w)), None)) \<and>
         host (snd (ensureDemoChannels api c w)) = h' \<and>
         (\<forall>kvs. r = Inr kvs \<longrightarrow> maps (snd (ensureDemoChannels api c w)) ! length (maps w) = kvs)"
proof -
  let ?w2 = "(snd (call (api_GetTeams api) w))\<lparr>maps := maps w @ [[]]\<rparr>"
  have t: "fst (api_GetTeams api (host w)) = Inr ts" using teams by simp
  have len: "length (maps w) < length (maps ?w2)" by simp
  have h: "host ?w2 = h" using teams by (simp add: call_def)
  have e: "maps ?w2 ! length (maps w) = []" by simp
  have n: "ChannelName (confs ?w2 ! c) = ChannelName (confs w ! c)" by simp
  from loop_refines [OF len, of api c ts] run
  show ?thesis
    unfolding ensureDemoChannels_run [OF t] h e n by simp
qed

lemma publish_failure_state:
  assumes e: "fst (ensureDemoChannels api c w) = (m, Some e)"
  shows "fst (OnConfigurationChange_publish api c w) =
           Returned (Some (Wrap e ''failed to ensure demo channels'')) \<and>
         logs (snd (OnConfigurationChange_publish api c w)) = logs w \<and>
         host (snd (OnConfigurationChange_publish api c w)) = host (snd (ensureDemoChannels api c w)) \<and>
         configuration_ptr (snd (OnConfigurationChange_publish api c w)) = configuration_ptr w"
proof -
  have ch: "ensureDemoChannels api c w = ((m, Some e), snd (ensureDemoChannels api c w))"
    using e by (simp add: prod_eq_iff)
  have l: "logs (snd (ensureDemoChannels api c w)) = logs w" by simp
  have p: "configuration_ptr (snd (ensureDemoChannels api c w)) = configuration_ptr w"
    using ensureDemoChannels_frame [of api c w] by blast
  show ?thesis
    unfolding publish_failure [OF ch] using l p by (simp add: conf_update_frame)
qed




section \<open>The background job\<close>

text \<open>
  C8. When the current configuration (what \<open>getConfiguration\<close> returns) is disabled,
  \<open>BackgroundJob\<close> returns with the state as it found it: no post is handed to the
  host, and nothing else is asked of it.
\<close>

theorem BackgroundJob_disabled_skips:
  "disabled (confs (snd (getConfiguration w)) ! fst (getConfiguration w)) \<Longrightarrow>
   BackgroundJob api w = w \<and> post_calls (BackgroundJob api w) = post_calls w"
  by (auto simp: BackgroundJob_def getConfiguration_def new_configuration_def
        zero_configuration_def split: option.splits)

theorem BackgroundJob_disabled_skips_witness:
  "disabled (confs (snd (getConfiguration disabled_world)) ! fst (getConfiguration disabled_world)) \<and>
   BackgroundJob example_api disabled_world = disabled_world \<and>
   post_calls (BackgroundJob example_api disabled_world) = []"
proof -
  have d: "disabled (confs (snd (getConfiguration disabled_world)) ! fst (getConfiguration disabled_world))"
    by (simp add: disabled_world_def example_world_def conf_update_def getConfiguration_def)
  have p: "post_calls disabled_world = []"
    by (simp add: disabled_world_def example_world_def conf_update_def)
  show ?thesis
    using BackgroundJob_disabled_skips [OF d, of example_api] d p by simp
qed

section \<open>The diff of a reload\<close>

text \<open>
  C6. The entry for a changed text style does not carry the new text style: line 2407
  stores \<open>newConfiguration.ChannelName\<close> under the key \<open>text_style\<close>. Here the text
  style changes from the empty string to \<open>**\<close> and the channel name stays \<open>demo\<close>;
  the diff is the single entry \<open>text_style\<close>, bound to \<open>demo\<close>.
\<close>

theorem configurationDiff_text_style_entry:
  "configurationDiff (zero_configuration\<lparr>ChannelName := ''demo''\<rparr>)
       (zero_configuration\<lparr>ChannelName := ''demo'', TextStyle := ''**''\<rparr>) =
     [(''text_style'', JString ''demo'')]"
  by (simp add: configurationDiff_def zero_configuration_def)

section \<open>The dialog submission handler\<close>

lemma attachment_colors_append [simp]:
  "attachment_colors (ps @ qs) = attachment_colors ps @ attachment_colors qs"
  by (simp add: attachment_colors_def)

lemma attachment_colors_simps [simp]:
  "attachment_colors [] = []"
  "attachment_colors (p # ps) = post_colors p @ attachment_colors ps"
  by (simp_all add: attachment_colors_def)

lemma postPluginMessage_loop_frame [simp]:
  "configuration_ptr (snd (postPluginMessage_loop api chs msg w)) = configuration_ptr w \<and>
   attachment_colors (post_calls (snd (postPluginMessage_loop api chs msg w))) =
     attachment_colors (post_calls w)"
  by (induction chs arbitrary: w)
     (simp_all add: case_prod_unfold post_colors_def zero_post_def split: sum.splits)

lemma postPluginMessage_frame [simp]:
  "configuration_ptr (snd (postPluginMessage api teamID msg w)) = configuration_ptr w \<and>
   attachment_colors (post_calls (snd (postPluginMessage api teamID msg w))) =
     attachment_colors (post_calls w)"
  by (simp add: postPluginMessage_def case_prod_unfold Let_def post_colors_def zero_post_def
      split: sum.splits)

lemma handleDialog_teams_frame [simp]:
  "configuration_ptr (handleDialog_teams api mid c ts w) = configuration_ptr w \<and>
   attachment_colors (post_calls (handleDialog_teams api mid c ts w)) =
     attachment_colors (post_calls w)"
  by (induction ts arbitrary: w) (simp_all split: option.splits)

lemma handleDialog_post_colors:
  "configuration_ptr w \<noteq> None \<Longrightarrow>
   attachment_colors (post_calls (snd (handleDialog_post api ch tg request usr p w))) =
     attachment_colors (post_calls w) @ [priority_color p]"
  by (auto simp: handleDialog_post_def Let_def case_prod_unfold post_colors_def zero_post_def
      split: option.splits sum.splits)

text \<open>
  C9. Take a request that decodes and whose user the host finds. If the submission does
  not bind \<open>4-User Impact\<close> to a string (the key is missing, or bound to nil or to a
  value of another type), \<open>handleDialog\<close> panics at the type assertion and writes no
  response. If it binds the key to a string other than \<open>High\<close>, \<open>Medium\<close> and
  \<open>Low\<close>, and a configuration is published, the call hands the host one post with an
  attachment, and the colour of that attachment is the empty string.
\<close>

theorem handleDialog_user_impact:
  assumes usr: "\<And>h. \<exists>usr. fst (api_GetUser api (req_UserId request) h) = Inr usr"
  shows "((\<forall>s. map_of (Submission request) ''4-User Impact'' \<noteq> Some (JString s)) \<longrightarrow>
            (\<exists>msg. fst (handleDialog api mid ch tg (Inr request) w) = Panicked msg)) \<and>
         (\<forall>s. map_of (Submission request) ''4-User Impact'' = Some (JString s) \<and>
               s \<noteq> ''High'' \<and> s \<noteq> ''Medium'' \<and> s \<noteq> ''Low'' \<and> configuration_ptr w \<noteq> None \<longrightarrow>
               attachment_colors (post_calls (snd (handleDialog api mid ch tg (Inr request) w))) =
                 attachment_colors (post_calls w) @ [''''])"
proof -
  let ?c = "fst (getConfiguration w)"
  let ?w1 = "snd (getConfiguration w)"
  let ?w2 = "snd (call (api_GetTeams api) ?w1)"
  let ?ts = "case fst (call (api_GetTeams api) ?w1) of Inl err2 \<Rightarrow> [] | Inr ts \<Rightarrow> ts"
  let ?w3 = "handleDialog_teams api mid ?c ?ts ?w2"
  let ?w4 = "snd (call (api_GetUser api (req_UserId request)) ?w3)"
  from usr [of "host ?w3"] obtain u where
    u: "fst (call (api_GetUser api (req_UserId request)) ?w3) = Inr u"
    by auto
  have run: "handleDialog api mid ch tg (Inr request) w =
      (case map_of (Submission request) ''4-User Impact'' of
         Some (JString priority) \<Rightarrow> handleDialog_post api ch tg request u priority ?w4
       | Some other \<Rightarrow> (Panicked (''interface conversion: interface {} is '' @ go_type_name other @
                                   '', not string''), ?w4)
       | None \<Rightarrow> (Panicked ''interface conversion: interface {} is nil, not string'', ?w4))"
    using u by (simp add: handleDialog_def case_prod_unfold Let_def zero_request_def)
  have ptr: "configuration_ptr ?w4 = configuration_ptr w"
    by simp
  have col: "attachment_colors (post_calls ?w4) = attachment_colors (post_calls w)"
    by simp
  have p1: "(\<forall>s. map_of (Submission request) ''4-User Impact'' \<noteq> Some (JString s)) \<longrightarrow>
            (\<exists>msg. fst (handleDialog api mid ch tg (Inr request) w) = Panicked msg)"
    unfolding run by (auto split: option.splits json.splits)
  have p2: "attachment_colors (post_calls (snd (handleDialog api mid ch tg (Inr request) w))) =
                 attachment_colors (post_calls w) @ ['''']"
    if s: "map_of (Submission request) ''4-User Impact'' = Some (JString s)"
      and o: "s \<noteq> ''High''" "s \<noteq> ''Medium''" "s \<noteq> ''Low''"
      and pub: "configuration_ptr w \<noteq> None" for s
  proof -
    have "handleDialog api mid ch tg (Inr request) w = handleDialog_post api ch tg request u s ?w4"
      unfolding run using s by simp
    moreover have "configuration_ptr ?w4 \<noteq> None" using ptr pub by simp
    moreover have "priority_color s = ''''" using o by (simp add: priority_color_def)
    ultimately show ?thesis
      using handleDialog_post_colors [of ?w4 api ch tg request u s] col by simp
  qed
  from p1 p2 show ?thesis by blast
qed

theorem handleDialog_user_impact_witness:
  "(\<forall>h. \<exists>usr. fst (api_GetUser example_api (req_UserId urgent_request) h) = Inr usr) \<and>
   map_of (Submission urgent_request) ''4-User Impact'' = Some (JString ''Urgent'') \<and>
   configuration_ptr example_world \<noteq> None \<and>
   attachment_colors (post_calls (snd (handleDialog example_api ''demo'' ''chan'' []
                                          (Inr urgent_request) example_world))) = [[]] \<and>
   (\<forall>h. \<exists>usr. fst (api_GetUser example_api (req_UserId zero_request) h) = Inr usr) \<and>
   (\<forall>s. map_of (Submission zero_request) ''4-User Impact'' \<noteq> Some (JString s)) \<and>
   (\<exists>msg. fst (handleDialog example_api ''demo'' ''chan'' [] (Inr zero_request) example_world) =
            Panicked msg)"
proof -
  have u: "\<And>request h. \<exists>usr. fst (api_GetUser example_api (req_UserId request) h) = Inr usr"
    by (simp add: example_api_def)
  have s: "map_of (Submission urgent_request) ''4-User Impact'' = Some (JString ''Urgent'')"
    by (simp add: urgent_request_def)
  have p: "configuration_ptr example_world \<noteq> None"
    by (simp add: example_world_def)
  have e: "attachment_colors (post_calls example_world) = []"
    by (simp add: example_world_def)
  have n: "\<forall>s. map_of (Submission zero_request) ''4-User Impact'' \<noteq> Some (JString s)"
    by (simp add: zero_request_def)
  from handleDialog_user_impact [where api = example_api and request = urgent_request and mid = "''demo''"
      and ch = "''chan''" and tg = "[]" and w = example_world, OF u]
    s p e
  have a: "attachment_colors (post_calls (snd (handleDialog example_api ''demo'' ''chan'' []
                                          (Inr urgent_request) example_world))) = [[]]"
    by simp
  from handleDialog_user_impact [where api = example_api and request = zero_request and mid = "''demo''"
      and ch = "''chan''" and tg = "[]" and w = example_world, OF u]
    n
  have b: "\<exists>msg. fst (handleDialog example_api ''demo'' ''chan'' [] (Inr zero_request) example_world) =
            Panicked msg"
    by blast
  from u s p a n b show ?thesis by blast
qed

end
